theory Spec2Isabelle
  imports Complex_Main
begin

section \<open>JavaScript numbers\<close>

text \<open>
  The animation code computes with JavaScript numbers. They are modelled as exact real
  numbers together with the three non-finite values that a division can produce:
  signed zeros are outside the model, division by zero is inside it. A value of type
  \<open>real\<close> in the definitions below is always a finite number; a value that has passed
  through a division is a \<open>jsnum\<close>. The rounding of double arithmetic is left out where
  a value stays a continuous quantity. Where \<open>Math.ceil\<close> or \<open>Math.floor\<close> turns a
  value into an integer the rounding decides the integer, and there every operation is
  rounded with \<open>toDouble\<close>.
\<close>

datatype jsnum = Num real | PosInf | NegInf | NaN

fun js_neg :: "jsnum \<Rightarrow> jsnum" where
  "js_neg (Num a) = Num (- a)"
| "js_neg PosInf = NegInf"
| "js_neg NegInf = PosInf"
| "js_neg NaN = NaN"

fun js_add :: "jsnum \<Rightarrow> jsnum \<Rightarrow> jsnum" where
  "js_add NaN _ = NaN"
| "js_add _ NaN = NaN"
| "js_add (Num a) (Num b) = Num (a + b)"
| "js_add PosInf NegInf = NaN"
| "js_add NegInf PosInf = NaN"
| "js_add PosInf _ = PosInf"
| "js_add _ PosInf = PosInf"
| "js_add NegInf _ = NegInf"
| "js_add _ NegInf = NegInf"

definition js_sub :: "jsnum \<Rightarrow> jsnum \<Rightarrow> jsnum" where
  "js_sub a b = js_add a (js_neg b)"

fun js_mul :: "jsnum \<Rightarrow> jsnum \<Rightarrow> jsnum" where
  "js_mul NaN _ = NaN"
| "js_mul _ NaN = NaN"
| "js_mul (Num a) (Num b) = Num (a * b)"
| "js_mul PosInf (Num b) = (if b = 0 then NaN else if 0 < b then PosInf else NegInf)"
| "js_mul NegInf (Num b) = (if b = 0 then NaN else if 0 < b then NegInf else PosInf)"
| "js_mul (Num a) PosInf = (if a = 0 then NaN else if 0 < a then PosInf else NegInf)"
| "js_mul (Num a) NegInf = (if a = 0 then NaN else if 0 < a then NegInf else PosInf)"
| "js_mul PosInf PosInf = PosInf"
| "js_mul NegInf NegInf = PosInf"
| "js_mul PosInf NegInf = NegInf"
| "js_mul NegInf PosInf = NegInf"

fun js_div :: "jsnum \<Rightarrow> jsnum \<Rightarrow> jsnum" where
  "js_div NaN _ = NaN"
| "js_div _ NaN = NaN"
| "js_div (Num a) (Num b) =
     (if b \<noteq> 0 then Num (a / b)
      else if a = 0 then NaN else if 0 < a then PosInf else NegInf)"
| "js_div (Num a) PosInf = Num 0"
| "js_div (Num a) NegInf = Num 0"
| "js_div PosInf (Num b) = (if 0 \<le> b then PosInf else NegInf)"
| "js_div NegInf (Num b) = (if 0 \<le> b then NegInf else PosInf)"
| "js_div _ _ = NaN"

text \<open>Comparisons: every comparison with \<open>NaN\<close> is false.\<close>

fun js_lt :: "jsnum \<Rightarrow> jsnum \<Rightarrow> bool" where
  "js_lt NaN _ = False"
| "js_lt _ NaN = False"
| "js_lt (Num a) (Num b) = (a < b)"
| "js_lt _ NegInf = False"
| "js_lt NegInf _ = True"
| "js_lt PosInf _ = False"
| "js_lt _ PosInf = True"

fun js_le :: "jsnum \<Rightarrow> jsnum \<Rightarrow> bool" where
  "js_le NaN _ = False"
| "js_le _ NaN = False"
| "js_le (Num a) (Num b) = (a \<le> b)"
| "js_le NegInf _ = True"
| "js_le _ PosInf = True"
| "js_le _ _ = False"

definition js_gt :: "jsnum \<Rightarrow> jsnum \<Rightarrow> bool" where
  "js_gt a b = js_lt b a"

definition js_ge :: "jsnum \<Rightarrow> jsnum \<Rightarrow> bool" where
  "js_ge a b = js_le b a"

text \<open>\<open>Math.min\<close> and \<open>Math.max\<close>: \<open>NaN\<close> if an argument is \<open>NaN\<close>.\<close>

definition js_min :: "jsnum \<Rightarrow> jsnum \<Rightarrow> jsnum" where
  "js_min a b = (if a = NaN \<or> b = NaN then NaN else if js_le a b then a else b)"

definition js_max :: "jsnum \<Rightarrow> jsnum \<Rightarrow> jsnum" where
  "js_max a b = (if a = NaN \<or> b = NaN then NaN else if js_le a b then b else a)"

text \<open>
  \<open>x || d\<close> on an optional number: \<open>undefined\<close>, \<open>0\<close> and \<open>NaN\<close> are falsy and give
  the right operand.
\<close>

fun js_truthy :: "jsnum \<Rightarrow> bool" where
  "js_truthy NaN = False"
| "js_truthy (Num a) = (a \<noteq> 0)"
| "js_truthy _ = True"

definition js_or :: "jsnum option \<Rightarrow> jsnum \<Rightarrow> jsnum" where
  "js_or x d = (case x of None \<Rightarrow> d | Some v \<Rightarrow> if js_truthy v then v else d)"

text \<open>
  The double nearest to a real number: the significand has 53 bits, so in the binade
  \<open>2^e \<le> |v| < 2^(e+1)\<close> the doubles are the multiples of \<open>2^(e-52)\<close>, and a tie
  goes to the even multiple. Magnitudes are taken to lie in the normal range (no
  overflow, no subnormal numbers).
\<close>

definition roundTiesToEven :: "real \<Rightarrow> int" where
  "roundTiesToEven v =
     (let n = \<lfloor>v\<rfloor>; d = v - of_int n
      in if d < 1 / 2 then n else if 1 / 2 < d then n + 1 else if even n then n else n + 1)"

definition toDouble :: "real \<Rightarrow> real" where
  "toDouble v =
     (if v = 0 then 0
      else
        let e = \<lfloor>log 2 \<bar>v\<bar>\<rfloor>;
            ulp = 2 powr (of_int e - 52)
        in of_int (roundTiesToEven (v / ulp)) * ulp)"

section \<open>Easing library\<close>

text \<open>
  The table \<open>easingFunctions\<close> of the VideoGenerator constructor, key by key. The
  arithmetic keeps the source's association: \<open>2 * t * t\<close> is \<open>(2 * t) * t\<close>, and
  \<open>(--t) * t * t + 1\<close> decrements \<open>t\<close> before the products are taken. The entry
  \<open>linear\<close> is named \<open>linear_easing\<close> here.
\<close>

definition linear_easing :: "jsnum \<Rightarrow> jsnum" where
  "linear_easing t = t"

definition easeInQuad :: "jsnum \<Rightarrow> jsnum" where
  "easeInQuad t = js_mul t t"

definition easeOutQuad :: "jsnum \<Rightarrow> jsnum" where
  "easeOutQuad t = js_mul t (js_sub (Num 2) t)"

definition easeInOutQuad :: "jsnum \<Rightarrow> jsnum" where
  "easeInOutQuad t =
     (if js_lt t (Num (1 / 2)) then js_mul (js_mul (Num 2) t) t
      else js_add (Num (- 1)) (js_mul (js_sub (Num 4) (js_mul (Num 2) t)) t))"

definition easeInCubic :: "jsnum \<Rightarrow> jsnum" where
  "easeInCubic t = js_mul (js_mul t t) t"

definition easeOutCubic :: "jsnum \<Rightarrow> jsnum" where
  "easeOutCubic t =
     (let t' = js_sub t (Num 1) in js_add (js_mul (js_mul t' t') t') (Num 1))"

definition easeInOutCubic :: "jsnum \<Rightarrow> jsnum" where
  "easeInOutCubic t =
     (if js_lt t (Num (1 / 2)) then js_mul (js_mul (js_mul (Num 4) t) t) t
      else js_add
             (js_mul (js_mul (js_sub t (Num 1)) (js_sub (js_mul (Num 2) t) (Num 2)))
                     (js_sub (js_mul (Num 2) t) (Num 2)))
             (Num 1))"

definition easeInOut :: "jsnum \<Rightarrow> jsnum" where
  "easeInOut t =
     (if js_lt t (Num (1 / 2)) then js_mul (js_mul (Num 2) t) t
      else js_add (Num (- 1)) (js_mul (js_sub (Num 4) (js_mul (Num 2) t)) t))"

definition easingFunctions :: "(string \<times> (jsnum \<Rightarrow> jsnum)) list" where
  "easingFunctions =
     [(''linear'', linear_easing),
      (''easeInQuad'', easeInQuad),
      (''easeOutQuad'', easeOutQuad),
      (''easeInOutQuad'', easeInOutQuad),
      (''easeInCubic'', easeInCubic),
      (''easeOutCubic'', easeOutCubic),
      (''easeInOutCubic'', easeInOutCubic),
      (''easeInOut'', easeInOut)]"

text \<open>
  \<open>this.easingFunctions[this.easingFunction] || this.easingFunctions.linear\<close>. The
  table is an object literal, so the lookup of a name finds the table's own key, or else
  a member that every object inherits from \<open>Object.prototype\<close>, or else nothing
  (\<open>undefined\<close>). Only \<open>undefined\<close> is falsy: an inherited member (a function, or the
  prototype object under \<open>__proto__\<close>) is truthy and is selected in place of an easing
  function. What calling such a member returns or throws is not a number of this model.
\<close>

definition objectPrototypeMembers :: "string list" where
  "objectPrototypeMembers =
     [''constructor'', ''hasOwnProperty'', ''isPrototypeOf'', ''propertyIsEnumerable'',
      ''toLocaleString'', ''toString'', ''valueOf'', ''__proto__'',
      ''__defineGetter__'', ''__defineSetter__'', ''__lookupGetter__'', ''__lookupSetter__'']"

datatype easing_choice = Easing "jsnum \<Rightarrow> jsnum" | Inherited string

definition easingFunc :: "string \<Rightarrow> easing_choice" where
  "easingFunc name =
     (case map_of easingFunctions name of
        Some f \<Rightarrow> Easing f
      | None \<Rightarrow> if name \<in> set objectPrototypeMembers then Inherited name
                else Easing linear_easing)"



section \<open>Routes\<close>

text \<open>
  A waypoint is a point in map image pixels. Of a route the model keeps the fields the
  animation reads: its name and identifier, the waypoints, the visibility flag, the
  optional animation timing and, for a branch, the parent's identifier and the waypoint
  it starts from. A timing field that is absent is \<open>None\<close>.
\<close>

record waypoint =
  wp_x :: real
  wp_y :: real

record animation =
  duration :: "jsnum option"
  delay :: "jsnum option"

record route =
  route_id :: string
  route_name :: string
  waypoints :: "waypoint list"
  visible :: bool
  route_animation :: "animation option"
  parentRoute :: "string option"
  branchFromWaypoint :: "waypoint option"

text \<open>\<open>route.animation?.delay\<close> and \<open>route.animation?.duration\<close>.\<close>

definition animation_delay :: "route \<Rightarrow> jsnum option" where
  "animation_delay r = (case route_animation r of None \<Rightarrow> None | Some a \<Rightarrow> delay a)"

definition animation_duration :: "route \<Rightarrow> jsnum option" where
  "animation_duration r = (case route_animation r of None \<Rightarrow> None | Some a \<Rightarrow> duration a)"

section \<open>Route timing\<close>

text \<open>
  The body of the \<open>forEach\<close> callback of \<open>drawRoutesAtProgress\<close>, for one route. The
  callback reads three variables of the enclosing method: the easing function selected
  (\<open>easingFunc\<close>), the total duration and the eased global progress. The route is
  skipped when it is hidden or has fewer than two waypoints, it is not drawn before its
  start, and otherwise it is drawn at the raw local progress passed through the easing.
\<close>

datatype route_draw = Skipped | NotStarted | Drawn jsnum jsnum

definition resolveRoute :: "(jsnum \<Rightarrow> jsnum) \<Rightarrow> real \<Rightarrow> jsnum \<Rightarrow> route \<Rightarrow> route_draw" where
  "resolveRoute easing totalDur easedProgress r =
     (if \<not> visible r \<or> length (waypoints r) < 2 then Skipped
      else
        let routeDelay = js_div (js_or (animation_delay r) (Num 0)) (Num totalDur);
            routeDuration = js_div (js_or (animation_duration r) (Num 3000)) (Num totalDur);
            routeStart = routeDelay
        in if js_ge easedProgress routeStart then
             let rawRouteProgress =
                   js_min (Num 1) (js_div (js_sub easedProgress routeStart) routeDuration);
                 easedRouteProgress = easing rawRouteProgress
             in Drawn rawRouteProgress easedRouteProgress
           else NotStarted)"

text \<open>
  \<open>drawRoutesAtProgress\<close> on the routes in the order the sort by delay gives them (the
  sort only fixes the order of drawing). With an inherited member selected in place of
  an easing function the result is outside the model (\<open>None\<close>).
\<close>

definition drawRoutesAtProgress ::
  "string \<Rightarrow> real \<Rightarrow> route list \<Rightarrow> jsnum \<Rightarrow> route_draw list option" where
  "drawRoutesAtProgress easingName totalDur sortedRoutes progress =
     (case easingFunc easingName of
        Easing easing \<Rightarrow>
          (let easedProgress = easing progress
           in Some (map (resolveRoute easing totalDur easedProgress) sortedRoutes))
      | Inherited member \<Rightarrow> None)"

section \<open>Example inputs\<close>

text \<open>A visible route of three waypoints with the given delay and duration.\<close>

definition example_route :: "jsnum option \<Rightarrow> jsnum option \<Rightarrow> route" where
  "example_route dl du =
     \<lparr>route_id = ''route_1'', route_name = ''Route 1'',
      waypoints = [\<lparr>wp_x = 0, wp_y = 0\<rparr>, \<lparr>wp_x = 10, wp_y = 0\<rparr>, \<lparr>wp_x = 10, wp_y = 10\<rparr>],
      visible = True,
      route_animation = Some \<lparr>duration = du, delay = dl\<rparr>,
      parentRoute = None, branchFromWaypoint = None\<rparr>"

section \<open>Path renderer\<close>

text \<open>
  \<open>drawRouteProgress\<close> and \<open>drawPathToLength\<close>. The map transform (scale and offsets
  of the background image in the preview canvas) is a finite record. A canvas path is
  the list of \<open>moveTo\<close> and \<open>lineTo\<close> calls between \<open>beginPath\<close> and \<open>stroke\<close>;
  \<open>drawRouteProgress\<close> returns the strokes it draws, in order. The glowing tip, the
  completion effect and the waypoint markers are separate shapes and no part of the
  stroke.
\<close>

record mapTransform =
  mt_scale :: real
  offsetX :: real
  offsetY :: real

record segment =
  seg_start :: real
  seg_length :: real
  seg_from :: waypoint
  seg_to :: waypoint

datatype pathcmd = MoveTo jsnum jsnum | LineTo jsnum jsnum

definition transformWaypoint :: "mapTransform \<Rightarrow> waypoint \<Rightarrow> waypoint" where
  "transformWaypoint mt wp =
     \<lparr>wp_x = wp_x wp * mt_scale mt + offsetX mt, wp_y = wp_y wp * mt_scale mt + offsetY mt\<rparr>"

text \<open>\<open>Math.sqrt(Math.pow(curr.x - prev.x, 2) + Math.pow(curr.y - prev.y, 2))\<close>.\<close>

definition segmentLength :: "waypoint \<Rightarrow> waypoint \<Rightarrow> real" where
  "segmentLength a b = sqrt ((wp_x b - wp_x a)\<^sup>2 + (wp_y b - wp_y a)\<^sup>2)"

text \<open>
  The loop that fills \<open>segments\<close> and accumulates \<open>totalLength\<close>; the result is the
  pair of both.
\<close>

fun buildSegments :: "real \<Rightarrow> waypoint list \<Rightarrow> segment list \<times> real" where
  "buildSegments totalLength (a # b # rest) =
     (let seg = \<lparr>seg_start = totalLength, seg_length = segmentLength a b,
                 seg_from = a, seg_to = b\<rparr>;
          (segs, finalLength) = buildSegments (totalLength + segmentLength a b) (b # rest)
      in (seg # segs, finalLength))"
| "buildSegments totalLength _ = ([], totalLength)"

text \<open>
  The \<open>for\<close> loop of \<open>drawPathToLength\<close>, with its two variables
  \<open>currentLength\<close> and \<open>pathStarted\<close>; the partial segment ends the loop.
\<close>

fun drawPathLoop :: "segment list \<Rightarrow> jsnum \<Rightarrow> real \<Rightarrow> bool \<Rightarrow> pathcmd list" where
  "drawPathLoop [] targetLength currentLength pathStarted = []"
| "drawPathLoop (seg # segs) targetLength currentLength pathStarted =
     (let start = (if \<not> pathStarted
                   then [MoveTo (Num (wp_x (seg_from seg))) (Num (wp_y (seg_from seg)))]
                   else [])
      in if js_le (Num (currentLength + seg_length seg)) targetLength then
           start @ LineTo (Num (wp_x (seg_to seg))) (Num (wp_y (seg_to seg)))
             # drawPathLoop segs targetLength (currentLength + seg_length seg) True
         else
           let remainingLength = js_sub targetLength (Num currentLength);
               segmentProgress = js_div remainingLength (Num (seg_length seg));
               partialX = js_add (Num (wp_x (seg_from seg)))
                            (js_mul (Num (wp_x (seg_to seg) - wp_x (seg_from seg))) segmentProgress);
               partialY = js_add (Num (wp_y (seg_from seg)))
                            (js_mul (Num (wp_y (seg_to seg) - wp_y (seg_from seg))) segmentProgress)
           in start @ [LineTo partialX partialY])"

definition drawPathToLength :: "segment list \<Rightarrow> jsnum \<Rightarrow> pathcmd list" where
  "drawPathToLength segments targetLength = drawPathLoop segments targetLength 0 False"

definition drawRouteProgress :: "mapTransform \<Rightarrow> route \<Rightarrow> jsnum \<Rightarrow> pathcmd list list" where
  "drawRouteProgress mt r progress =
     (if length (waypoints r) < 2 then []
      else
        let transformedWaypoints = map (transformWaypoint mt) (waypoints r);
            (segments, totalLength) = buildSegments 0 transformedWaypoints;
            drawLength = js_mul (Num totalLength) progress
        in (if js_gt progress (Num 0) then [drawPathToLength segments drawLength] else [])
           @ (if js_ge progress (Num 1) then [drawPathToLength segments (Num totalLength)] else []))"

text \<open>
  The length of the line a path strokes, as the canvas draws it: the pen starts nowhere,
  \<open>moveTo\<close> places it, \<open>lineTo\<close> draws from the pen to the point (and only places the
  pen when the path is still empty), and a call with a non-finite coordinate is ignored.
\<close>

fun strokeLength :: "(real \<times> real) option \<Rightarrow> pathcmd list \<Rightarrow> real" where
  "strokeLength pen [] = 0"
| "strokeLength pen (MoveTo (Num a) (Num b) # cs) = strokeLength (Some (a, b)) cs"
| "strokeLength None (LineTo (Num a) (Num b) # cs) = strokeLength (Some (a, b)) cs"
| "strokeLength (Some (pa, pb)) (LineTo (Num a) (Num b) # cs) =
     sqrt ((a - pa)\<^sup>2 + (b - pb)\<^sup>2) + strokeLength (Some (a, b)) cs"
| "strokeLength pen (c # cs) = strokeLength pen cs"

text \<open>The length of a polyline and the path that draws all of it.\<close>

fun polylineLength :: "waypoint list \<Rightarrow> real" where
  "polylineLength (p # q # rest) = segmentLength p q + polylineLength (q # rest)"
| "polylineLength _ = 0"

definition fullPath :: "waypoint list \<Rightarrow> pathcmd list" where
  "fullPath ws = (case ws of [] \<Rightarrow> []
     | w # rest \<Rightarrow> MoveTo (Num (wp_x w)) (Num (wp_y w)) # map (\<lambda>v. LineTo (Num (wp_x v)) (Num (wp_y v))) rest)"

text \<open>A \<open>lineTo\<close> to a waypoint, and to the point at fraction \<open>f\<close> of a segment.\<close>

definition lineToPoint :: "waypoint \<Rightarrow> pathcmd" where
  "lineToPoint v = LineTo (Num (wp_x v)) (Num (wp_y v))"

definition interpolated :: "waypoint \<Rightarrow> waypoint \<Rightarrow> real \<Rightarrow> pathcmd" where
  "interpolated a b f =
     LineTo (Num (wp_x a + (wp_x b - wp_x a) * f)) (Num (wp_y a + (wp_y b - wp_y a) * f))"

text \<open>The length of a route in preview coordinates.\<close>

definition routeLength :: "mapTransform \<Rightarrow> route \<Rightarrow> real" where
  "routeLength mt r = polylineLength (map (transformWaypoint mt) (waypoints r))"

definition identityTransform :: mapTransform where
  "identityTransform = \<lparr>mt_scale = 1, offsetX = 0, offsetY = 0\<rparr>"

section \<open>Timeline\<close>

text \<open>
  The fields of the VideoGenerator object that the timeline, the preview and the export
  read and write. \<open>hasPreviewCanvas\<close> says that \<open>previewCanvas\<close> is set. The current
  time is a \<open>jsnum\<close> because the playing tick computes it through a division by the
  playback speed; the total duration and the speed are finite numbers.
\<close>

record videoSettings =
  vs_width :: real
  vs_height :: real
  vs_fps :: real
  vs_format :: string
  vs_quality :: string
  vs_backgroundColor :: string

record generator =
  hasPreviewCanvas :: bool
  isPlaying :: bool
  currentTime :: jsnum
  totalDuration :: real
  playbackSpeed :: real
  easingFunction :: string
  videoSettings :: videoSettings
  exportProgress :: int
  exportStatus :: string
  isExporting :: bool

text \<open>
  The timeline operations. An operation that calls \<open>renderFrame\<close> returns the progress
  it renders next to the new state. \<open>Date.now()\<close> is a parameter: \<open>startAnimation\<close>
  reads the clock once for \<open>startTime\<close> (\<open>now0\<close>) and once in the first call of
  \<open>animate\<close> (\<open>now1\<close>); later ticks are further calls of \<open>animate\<close> with the same
  \<open>startTime\<close>. The argument of \<open>seekTo\<close> is a finite number.
\<close>

definition pausePreview :: "generator \<Rightarrow> generator" where
  "pausePreview g = g\<lparr>isPlaying := False\<rparr>"

definition stopPreview :: "generator \<Rightarrow> generator \<times> jsnum" where
  "stopPreview g = (g\<lparr>isPlaying := False, currentTime := Num 0\<rparr>, Num 0)"

definition seekTo :: "real \<Rightarrow> generator \<Rightarrow> generator \<times> jsnum" where
  "seekTo time g =
     (let g' = g\<lparr>currentTime := js_max (Num 0) (js_min (Num time) (Num (totalDuration g)))\<rparr>;
          progress = js_div (currentTime g') (Num (totalDuration g'))
      in (g', progress))"

definition startTimeOf :: "real \<Rightarrow> generator \<Rightarrow> jsnum" where
  "startTimeOf now g = js_sub (Num now) (js_div (currentTime g) (Num (playbackSpeed g)))"

definition animate :: "jsnum \<Rightarrow> real \<Rightarrow> generator \<Rightarrow> generator \<times> jsnum option" where
  "animate startTime now g =
     (if \<not> isPlaying g then (g, None)
      else
        let g1 = g\<lparr>currentTime := js_mul (js_sub (Num now) startTime) (Num (playbackSpeed g))\<rparr>;
            g2 = (if js_ge (currentTime g1) (Num (totalDuration g1))
                  then g1\<lparr>currentTime := Num (totalDuration g1), isPlaying := False\<rparr>
                  else g1);
            progress = js_div (currentTime g2) (Num (totalDuration g2))
        in (g2, Some progress))"

definition startAnimation :: "real \<Rightarrow> real \<Rightarrow> generator \<Rightarrow> generator \<times> jsnum option" where
  "startAnimation now0 now1 g = animate (startTimeOf now0 g) now1 g"

definition playPreview :: "real \<Rightarrow> real \<Rightarrow> generator \<Rightarrow> generator \<times> jsnum option" where
  "playPreview now0 now1 g =
     (if isPlaying g then (g, None) else startAnimation now0 now1 (g\<lparr>isPlaying := True\<rparr>))"


text \<open>The invariant of the timeline: \<open>0 \<le> currentTime \<le> totalDuration\<close>.\<close>

definition timeline_inv :: "generator \<Rightarrow> bool" where
  "timeline_inv g = (js_le (Num 0) (currentTime g) \<and> js_le (currentTime g) (Num (totalDuration g)))"


section \<open>Frame capture\<close>

text \<open>
  \<open>captureAnimationFrames\<close>. A captured frame is recorded by its index, the timeline
  time it was sampled at and the progress handed to \<open>renderFrame\<close>. Rendering or
  reading the canvas may throw: \<open>throws i\<close> says that it does at frame \<open>i\<close>. The loop
  is the \<open>for\<close> loop of the source with its counter \<open>i\<close>; the argument before the
  counter is the number of iterations that remain. The \<open>finally\<close> block runs on both
  exits; for a timeline that was paused it renders the restored frame, which changes no
  state. The waits between frames, during which other handlers could run, are not
  modelled. The number of frames is \<open>Math.ceil((totalDuration / 1000) * fps)\<close> and the
  export progress is \<open>Math.floor((frameIndex / totalFrames) * 70)\<close>, both on doubles:
  the quotient and the product are rounded before the integer is taken.
\<close>

record frame =
  frameIndex :: nat
  frameTime :: jsnum
  frameProgress :: jsnum

fun captureLoop ::
  "real \<Rightarrow> nat \<Rightarrow> (nat \<Rightarrow> bool) \<Rightarrow> nat \<Rightarrow> nat \<Rightarrow> generator \<Rightarrow> frame list
     \<Rightarrow> (string + frame list) \<times> generator" where
  "captureLoop fps totalFrames throws 0 i g frames = (Inr frames, g)"
| "captureLoop fps totalFrames throws (Suc n) i g frames =
     (let timeMs = js_mul (js_div (Num (real i)) (Num fps)) (Num 1000);
          progress = js_min (js_div timeMs (Num (totalDuration g))) (Num 1);
          g1 = g\<lparr>currentTime := timeMs\<rparr>
      in if throws i then (Inl ''frame capture failed'', g1)
         else captureLoop fps totalFrames throws n (Suc i)
                (g1\<lparr>exportProgress :=
                      \<lfloor>toDouble (toDouble (real i / real totalFrames) * 70)\<rfloor>\<rparr>)
                (frames @ [\<lparr>frameIndex = i, frameTime = timeMs, frameProgress = progress\<rparr>]))"

definition captureAnimationFrames ::
  "(nat \<Rightarrow> bool) \<Rightarrow> real \<Rightarrow> real \<Rightarrow> generator \<Rightarrow> (string + frame list) \<times> generator" where
  "captureAnimationFrames throws now0 now1 g =
     (let fps = 30;
          totalFrames = nat \<lceil>toDouble (toDouble (totalDuration g / 1000) * fps)\<rceil>
      in if \<not> hasPreviewCanvas g then (Inl ''Preview canvas not available for capture'', g)
         else
           let originalTime = currentTime g;
               originalPlaying = isPlaying g;
               g1 = pausePreview (g\<lparr>isExporting := True\<rparr>);
               (result, g2) = captureLoop fps totalFrames throws totalFrames 0 g1 [];
               g3 = g2\<lparr>isExporting := False, currentTime := originalTime\<rparr>
           in (result, if originalPlaying then fst (playPreview now0 now1 g3) else g3))"

text \<open>Environments and inputs for the examples.\<close>

definition noThrow :: "nat \<Rightarrow> bool" where
  "noThrow i = False"


text \<open>The state the constructor builds, with the preview canvas set up.\<close>

definition initialGenerator :: generator where
  "initialGenerator =
     \<lparr>hasPreviewCanvas = True, isPlaying = False, currentTime = Num 0, totalDuration = 5000,
      playbackSpeed = 1, easingFunction = ''easeInOutCubic'',
      videoSettings = \<lparr>vs_width = 1920, vs_height = 1080, vs_fps = 30, vs_format = ''mp4'',
                        vs_quality = ''high'', vs_backgroundColor = ''#1e1e1e''\<rparr>,
      exportProgress = 0, exportStatus = ''idle'', isExporting = False\<rparr>"

definition frameCount :: "(string + frame list) \<Rightarrow> nat option" where
  "frameCount res = (case res of Inl e \<Rightarrow> None | Inr frames \<Rightarrow> Some (length frames))"

text \<open>The frame the loop records at index \<open>k\<close>.\<close>

definition sampledFrame :: "real \<Rightarrow> real \<Rightarrow> nat \<Rightarrow> frame" where
  "sampledFrame fps totalDur k =
     \<lparr>frameIndex = k,
      frameTime = js_mul (js_div (Num (real k)) (Num fps)) (Num 1000),
      frameProgress = js_min (js_div (js_mul (js_div (Num (real k)) (Num fps)) (Num 1000)) (Num totalDur)) (Num 1)\<rparr>"

section \<open>Branch routes\<close>

text \<open>
  \<open>createBranchFromWaypoint\<close> of the map canvas. Of the canvas the model keeps the route
  list, the current route, the branch mode flag and the current tool; the identifier
  that \<open>generateRouteId\<close> returns is a parameter. The delay of the branch is the source
  expression \<open>sourceRoute.animation?.delay || 0 + 500\<close>, in which \<open>+\<close> binds tighter
  than \<open>||\<close>.
\<close>

record mapCanvas =
  routes :: "route list"
  currentRoute :: "route option"
  branchMode :: bool
  currentTool :: string

definition branchRouteOf :: "string \<Rightarrow> waypoint \<Rightarrow> route \<Rightarrow> route" where
  "branchRouteOf newId sourceWaypoint sourceRoute =
     \<lparr>route_id = newId,
      route_name = ''Branch from '' @ route_name sourceRoute,
      waypoints = [sourceWaypoint],
      visible = True,
      route_animation =
        Some \<lparr>duration = Some (Num 3000),
              delay = Some (js_or (animation_delay sourceRoute) (js_add (Num 0) (Num 500)))\<rparr>,
      parentRoute = Some (route_id sourceRoute),
      branchFromWaypoint = Some sourceWaypoint\<rparr>"

definition createBranchFromWaypoint ::
  "string \<Rightarrow> waypoint option \<Rightarrow> route option \<Rightarrow> mapCanvas \<Rightarrow> mapCanvas" where
  "createBranchFromWaypoint newId sourceWaypoint sourceRoute mc =
     (case (sourceWaypoint, sourceRoute) of
        (Some wp, Some src) \<Rightarrow>
          mc\<lparr>routes := routes mc @ [branchRouteOf newId wp src],
             currentRoute := Some (branchRouteOf newId wp src),
             branchMode := False,
             currentTool := ''draw''\<rparr>
      | _ \<Rightarrow> mc)"

section \<open>Client export\<close>

text \<open>
  \<open>createVideoFromFrames\<close> tries three methods in turn. What the first two give depends
  on the browser's recorder, so their outcomes are parameters: an error message when the
  method throws or rejects, the blob otherwise. \<open>createFramesZip\<close> builds a JSON blob,
  whose size is a parameter.
\<close>

record blob =
  blob_size :: nat
  blob_type :: string

definition createFramesZip :: "nat \<Rightarrow> blob" where
  "createFramesZip jsonSize = \<lparr>blob_size = jsonSize, blob_type = ''application/json''\<rparr>"

definition createVideoFromFrames :: "string + blob \<Rightarrow> string + blob \<Rightarrow> nat \<Rightarrow> string + blob" where
  "createVideoFromFrames webm alternative jsonSize =
     (let second = (case alternative of
                      Inr videoBlob \<Rightarrow> Inr videoBlob
                    | Inl err \<Rightarrow> Inr (createFramesZip jsonSize))
      in case webm of
           Inr videoBlob \<Rightarrow> if 1000 < blob_size videoBlob then Inr videoBlob else second
         | Inl err \<Rightarrow> second)"

text \<open>
  \<open>exportVideo\<close>. The environment holds what the method reads from the page: whether
  the canvas has a map image, the routes of the canvas and of the route manager, and the
  outcomes of rendering and recording. The result is the error message of the
  \<open>catch\<close> block or the blob handed to the download.
\<close>

record exportEnv =
  mapImageData :: "bool option"
  canvasRoutes :: "route list"
  managerRoutes :: "route list option"
  captureThrows :: "nat \<Rightarrow> bool"
  clock0 :: real
  clock1 :: real
  webmOutcome :: "string + blob"
  alternativeOutcome :: "string + blob"
  framesJsonSize :: nat

definition exportFailed :: "string \<Rightarrow> generator \<Rightarrow> (string + blob) \<times> generator" where
  "exportFailed msg g = (Inl msg, g\<lparr>exportStatus := ''error'', exportProgress := 0\<rparr>)"

definition exportableRoutes :: "exportEnv \<Rightarrow> route list" where
  "exportableRoutes env =
     (let found = (if canvasRoutes env = []
                   then (case managerRoutes env of Some rs \<Rightarrow> rs | None \<Rightarrow> [])
                   else canvasRoutes env)
      in filter (\<lambda>r. visible r \<and> 2 \<le> length (waypoints r)) found)"

definition exportVideo :: "exportEnv \<Rightarrow> generator \<Rightarrow> (string + blob) \<times> generator" where
  "exportVideo env g =
     (let g0 = g\<lparr>exportStatus := ''preparing'', exportProgress := 0\<rparr>
      in if mapImageData env \<noteq> Some True then
           exportFailed ''No map image available for export. Please upload a map first.'' g0
         else if exportableRoutes env = [] then
           exportFailed ''No visible routes with waypoints found for export.'' g0
         else
           let g1 = g0\<lparr>exportStatus := ''generating''\<rparr>;
               (captured, g2) = captureAnimationFrames (captureThrows env) (clock0 env) (clock1 env) g1
           in case captured of
                Inl err \<Rightarrow> exportFailed err g2
              | Inr frames \<Rightarrow>
                  if frames = [] then exportFailed ''No frames captured from animation timeline'' g2
                  else
                    let g3 = g2\<lparr>exportStatus := ''processing'', exportProgress := 80\<rparr>
                    in case createVideoFromFrames (webmOutcome env) (alternativeOutcome env)
                              (framesJsonSize env) of
                         Inl err \<Rightarrow> exportFailed err g3
                       | Inr videoBlob \<Rightarrow>
                           (Inr videoBlob, g3\<lparr>exportStatus := ''completed'', exportProgress := 100\<rparr>))"

section \<open>Server export\<close>

text \<open>
  The video processor and the \<open>POST /video\<close> route. A job is kept by its identifier,
  status, error message and output file. The capabilities are the two modules loaded at
  start-up (\<open>createCanvas\<close>, \<open>ffmpeg\<close>). What rendering, encoding and writing files give
  is the environment: per tier, an error message or the output file.
\<close>

datatype jobStatus = Queued | Processing | Completed | Error

record job =
  job_id :: string
  job_status :: jobStatus
  job_error :: "string option"
  outputFile :: "string option"
  job_routes :: "route list"
  job_mapImage :: "string option"

record capabilities =
  hasCanvas :: bool
  hasFfmpeg :: bool

record tierOutcomes =
  realVideo :: "string + string"
  staticImage :: "string + string"
  manifest :: "string + string"

definition jobFailed :: "string \<Rightarrow> job \<Rightarrow> job" where
  "jobFailed msg j = j\<lparr>job_status := Error, job_error := Some msg\<rparr>"

definition jobCompleted :: "string \<Rightarrow> job \<Rightarrow> job" where
  "jobCompleted out j = j\<lparr>job_status := Completed, outputFile := Some out\<rparr>"

text \<open>
  \<open>processVideo\<close> up to its first wait: the status becomes \<open>processing\<close> and the input is
  validated; a failed validation is caught at once and sets the status to \<open>error\<close>.
\<close>

definition processVideoStart :: "job \<Rightarrow> job" where
  "processVideoStart j =
     (let j1 = j\<lparr>job_status := Processing\<rparr>
      in if job_routes j1 = [] then jobFailed ''No routes provided for video generation'' j1
         else if job_mapImage j1 = None then jobFailed ''No map image provided for video generation'' j1
         else j1)"

definition generateEnhancedManifest :: "tierOutcomes \<Rightarrow> job \<Rightarrow> string + job" where
  "generateEnhancedManifest out j =
     (case manifest out of Inl err \<Rightarrow> Inl err | Inr file \<Rightarrow> Inr (jobCompleted file j))"

definition generateStaticRouteImage :: "tierOutcomes \<Rightarrow> job \<Rightarrow> string + job" where
  "generateStaticRouteImage out j =
     (case staticImage out of
        Inr file \<Rightarrow> Inr (jobCompleted file j)
      | Inl err \<Rightarrow> generateEnhancedManifest out j)"

definition generateEnhancedFallback :: "capabilities \<Rightarrow> tierOutcomes \<Rightarrow> job \<Rightarrow> string + job" where
  "generateEnhancedFallback caps out j =
     (if hasCanvas caps then generateStaticRouteImage out j else generateEnhancedManifest out j)"

definition generateRealVideo :: "tierOutcomes \<Rightarrow> job \<Rightarrow> string + job" where
  "generateRealVideo out j =
     (case realVideo out of Inl err \<Rightarrow> Inl err | Inr file \<Rightarrow> Inr (jobCompleted file j))"

text \<open>\<open>processVideo\<close> when its promise has settled.\<close>

definition processVideo :: "capabilities \<Rightarrow> tierOutcomes \<Rightarrow> job \<Rightarrow> job" where
  "processVideo caps out j =
     (let j1 = processVideoStart j
      in if job_status j1 = Error then j1
         else case (if hasCanvas caps \<and> hasFfmpeg caps then generateRealVideo out j1
                    else generateEnhancedFallback caps out j1) of
                Inl err \<Rightarrow> jobFailed err j1
              | Inr done \<Rightarrow> done)"

text \<open>
  \<open>createVideoJob\<close> stores the job and starts processing; the job in the store when the
  call returns is the job at the first wait of \<open>processVideo\<close>.
\<close>

definition createVideoJob ::
  "string \<Rightarrow> route list \<Rightarrow> string option \<Rightarrow> (string \<rightharpoonup> job) \<Rightarrow> string \<times> (string \<rightharpoonup> job)" where
  "createVideoJob jobId rs mapImage jobs =
     (let j = \<lparr>job_id = jobId, job_status = Queued, job_error = None, outputFile = None,
               job_routes = rs, job_mapImage = mapImage\<rparr>
      in (jobId, jobs(jobId \<mapsto> processVideoStart j)))"

text \<open>
  The handler of \<open>POST /video\<close>. Of the request body the model keeps \<open>routes\<close>
  (\<open>None\<close> when the field is missing or no array) and \<open>mapImage\<close> (\<open>None\<close> when it is
  missing or falsy); the settings and the total duration only get defaults. Of the
  answer it keeps the HTTP status, the \<open>success\<close> flag, the text of \<open>error\<close> or
  \<open>message\<close>, and the job id. The identifier that \<open>uuidv4\<close> returns is a parameter.
\<close>

record videoRequest =
  req_routes :: "route list option"
  req_mapImage :: "string option"

record response =
  httpStatus :: nat
  success :: bool
  message :: string
  jobId :: "string option"

definition postVideo ::
  "string \<Rightarrow> videoRequest \<Rightarrow> (string \<rightharpoonup> job) \<Rightarrow> response \<times> (string \<rightharpoonup> job)" where
  "postVideo newJobId req jobs =
     (case req_routes req of
        None \<Rightarrow>
          (\<lparr>httpStatus = 400, success = False, message = ''Invalid routes data'', jobId = None\<rparr>, jobs)
      | Some rs \<Rightarrow>
          if req_mapImage req = None then
            (\<lparr>httpStatus = 400, success = False, message = ''Map image is required'', jobId = None\<rparr>,
             jobs)
          else
            let (created, jobs') = createVideoJob newJobId rs (req_mapImage req) jobs
            in (\<lparr>httpStatus = 200, success = True, message = ''Video generation started'',
                 jobId = Some created\<rparr>, jobs'))"

text \<open>Inputs for the examples.\<close>

definition emptyRequest :: videoRequest where
  "emptyRequest = \<lparr>req_routes = Some [], req_mapImage = Some ''data:image/png;base64,AAAA''\<rparr>"

definition emptyExportEnv :: exportEnv where
  "emptyExportEnv =
     \<lparr>mapImageData = Some True, canvasRoutes = [], managerRoutes = Some [],
      captureThrows = noThrow, clock0 = 0, clock1 = 0,
      webmOutcome = Inl ''MediaRecorder error'',
      alternativeOutcome = Inr \<lparr>blob_size = 5000, blob_type = ''video/webm''\<rparr>,
      framesJsonSize = 10\<rparr>"

definition validJob :: job where
  "validJob =
     \<lparr>job_id = ''job-1'', job_status = Queued, job_error = None, outputFile = None,
      job_routes = [example_route None None], job_mapImage = Some ''data:image/png;base64,AAAA''\<rparr>"

section \<open>Verification: easing\<close>

lemma js_sub_Num [simp]: "js_sub (Num a) (Num b) = Num (a - b)"
  by (simp add: js_sub_def)
















section \<open>Verification: route timing\<close>

lemma js_min_Num [simp]: "js_min (Num a) (Num b) = Num (min a b)"
  by (simp add: js_min_def min_def)

lemma js_max_Num [simp]: "js_max (Num a) (Num b) = Num (max a b)"
  by (simp add: js_max_def max_def)

lemma js_ge_Num [simp]: "js_ge (Num a) (Num b) = (b \<le> a)"
  by (simp add: js_ge_def)

lemma js_gt_Num [simp]: "js_gt (Num a) (Num b) = (b < a)"
  by (simp add: js_gt_def)

lemma ratio_ge_one: "0 < (w::real) \<Longrightarrow> s + w \<le> p \<Longrightarrow> 1 \<le> (p - s) / w"
  by (simp add: pos_le_divide_eq)

lemma ratio_less_one: "0 < (w::real) \<Longrightarrow> p < s + w \<Longrightarrow> (p - s) / w < 1"
  by (simp add: pos_divide_less_eq)

lemma resolveRoute_started:
  assumes "visible r" "2 \<le> length (waypoints r)" "0 < T"
    and "js_or (animation_delay r) (Num 0) = Num d"
    and "js_or (animation_duration r) (Num 3000) = Num u" "0 < u"
    and "d / T \<le> p"
  shows "resolveRoute e T (Num p) r =
           Drawn (Num (min 1 ((p - d / T) / (u / T))))
                 (e (Num (min 1 ((p - d / T) / (u / T)))))"
  using assms by (simp add: resolveRoute_def Let_def)

lemma resolveRoute_before:
  assumes "visible r" "2 \<le> length (waypoints r)" "0 < T"
    and "js_or (animation_delay r) (Num 0) = Num d"
    and "p < d / T"
  shows "resolveRoute e T (Num p) r = NotStarted"
  using assms by (simp add: resolveRoute_def Let_def)

text \<open>
  Claim C1, as the code has it. For a visible route with at least two waypoints, a
  positive total duration and any easing function \<open>e\<close> selected, with \<open>d\<close> the delay
  (0 when unset or zero) and \<open>u\<close> the duration (3000 when unset or zero),
  \<open>routeStart = d / T\<close> and
  \<open>routeEnd = routeStart + u / T\<close>: before \<open>routeStart\<close> the route is not drawn at
  all, at \<open>routeStart\<close> its local progress is 0, from \<open>routeEnd\<close> on it is 1, and
  in between it is \<open>(p - routeStart) / (routeEnd - routeStart)\<close>. A duration of zero
  counts as 3000 ms, so no route has \<open>routeStart = routeEnd\<close>.
\<close>

theorem route_timing_resolved:
  assumes vis: "visible r" and wps: "2 \<le> length (waypoints r)" and T: "0 < T"
    and dl: "js_or (animation_delay r) (Num 0) = Num d"
    and du: "js_or (animation_duration r) (Num 3000) = Num u" and u: "0 < u"
  shows "(animation_duration r = None \<or> animation_duration r = Some (Num 0) \<longrightarrow> u = 3000) \<and>
         (p < d / T \<longrightarrow> resolveRoute e T (Num p) r = NotStarted) \<and>
         (p = d / T \<longrightarrow> resolveRoute e T (Num p) r = Drawn (Num 0) (e (Num 0))) \<and>
         (d / T + u / T \<le> p \<longrightarrow> resolveRoute e T (Num p) r = Drawn (Num 1) (e (Num 1))) \<and>
         (d / T < p \<and> p < d / T + u / T \<longrightarrow>
            resolveRoute e T (Num p) r =
              Drawn (Num ((p - d / T) / ((d / T + u / T) - d / T)))
                    (e (Num ((p - d / T) / ((d / T + u / T) - d / T)))))"
proof (intro conjI impI)
  assume "animation_duration r = None \<or> animation_duration r = Some (Num 0)"
  then show "u = 3000" using du by (auto simp: js_or_def)
next
  assume "p < d / T"
  then show "resolveRoute e T (Num p) r = NotStarted"
    using resolveRoute_before [OF vis wps T dl] by simp
next
  assume "p = d / T"
  then show "resolveRoute e T (Num p) r = Drawn (Num 0) (e (Num 0))"
    using resolveRoute_started [OF vis wps T dl du u, of p e] by simp
next
  have uT: "0 < u / T" using u T by simp
  assume h: "d / T + u / T \<le> p"
  then have "1 \<le> (p - d / T) / (u / T)" using uT by (intro ratio_ge_one)
  then have "min 1 ((p - d / T) / (u / T)) = 1" by simp
  moreover have "d / T \<le> p" using h uT by linarith
  ultimately show "resolveRoute e T (Num p) r = Drawn (Num 1) (e (Num 1))"
    using resolveRoute_started [OF vis wps T dl du u, of p e] by simp
next
  have uT: "0 < u / T" using u T by simp
  assume h: "d / T < p \<and> p < d / T + u / T"
  then have "(p - d / T) / (u / T) < 1" using uT by (intro ratio_less_one) simp_all
  then have "min 1 ((p - d / T) / (u / T)) = (p - d / T) / (u / T)" by simp
  moreover have "d / T \<le> p" using h by linarith
  ultimately show "resolveRoute e T (Num p) r =
              Drawn (Num ((p - d / T) / ((d / T + u / T) - d / T)))
                    (e (Num ((p - d / T) / ((d / T + u / T) - d / T))))"
    using resolveRoute_started [OF vis wps T dl du u, of p e] by simp
qed

lemma example_route_simps [simp]:
  "visible (example_route dl du)"
  "length (waypoints (example_route dl du)) = 3"
  "animation_delay (example_route dl du) = dl"
  "animation_duration (example_route dl du) = du"
  by (simp_all add: example_route_def animation_delay_def animation_duration_def)

theorem route_timing_resolved_witness:
  "visible (example_route (Some (Num 5000)) (Some (Num 5000))) \<and>
   2 \<le> length (waypoints (example_route (Some (Num 5000)) (Some (Num 5000)))) \<and>
   resolveRoute linear_easing 10000 (Num (1 / 4)) (example_route (Some (Num 0)) (Some (Num 5000)))
     = Drawn (Num (1 / 2)) (Num (1 / 2)) \<and>
   resolveRoute linear_easing 10000 (Num (1 / 4)) (example_route (Some (Num 5000)) (Some (Num 5000)))
     = NotStarted \<and>
   resolveRoute linear_easing 10000 (Num (1 / 2)) (example_route (Some (Num 5000)) (Some (Num 5000)))
     = Drawn (Num 0) (Num 0) \<and>
   resolveRoute linear_easing 10000 (Num 1) (example_route (Some (Num 5000)) (Some (Num 5000)))
     = Drawn (Num 1) (Num 1) \<and>
   resolveRoute linear_easing 10000 (Num (3 / 10)) (example_route None (Some (Num 0)))
     = Drawn (Num 1) (Num 1)"
proof -
  have a: "js_or (Some (Num 0)) (Num 0) = Num 0" "js_or (Some (Num 5000)) (Num 0) = Num 5000"
    "js_or (Some (Num 5000)) (Num 3000) = Num 5000" "js_or None (Num 0) = Num 0"
    "js_or (Some (Num 0)) (Num 3000) = Num 3000"
    by (simp_all add: js_or_def)
  show ?thesis
    using
      route_timing_resolved [of "example_route (Some (Num 0)) (Some (Num 5000))" 10000 0 5000 "1 / 4" linear_easing]
      route_timing_resolved [of "example_route (Some (Num 5000)) (Some (Num 5000))" 10000 5000 5000 "1 / 4" linear_easing]
      route_timing_resolved [of "example_route (Some (Num 5000)) (Some (Num 5000))" 10000 5000 5000 "1 / 2" linear_easing]
      route_timing_resolved [of "example_route (Some (Num 5000)) (Some (Num 5000))" 10000 5000 5000 "1" linear_easing]
      route_timing_resolved [of "example_route None (Some (Num 0))" 10000 0 3000 "3 / 10" linear_easing]
    by (simp add: a linear_easing_def)
qed

text \<open>
  The claim as the spec states it fails twice: a route of duration 0 and delay 0 is one
  third drawn at global progress 1/10 of a 10000 ms timeline (the spec's jump would give
  1), and a route that starts at 1/2 is not drawn at progress 1/4 (rather than drawn at
  local progress 0).
\<close>

theorem route_timing_counterexample:
  "resolveRoute linear_easing 10000 (Num (1 / 10)) (example_route (Some (Num 0)) (Some (Num 0)))
     = Drawn (Num (1 / 3)) (Num (1 / 3)) \<and>
   resolveRoute linear_easing 10000 (Num (1 / 4)) (example_route (Some (Num 5000)) (Some (Num 5000)))
     = NotStarted"
  by (simp add: resolveRoute_def Let_def js_or_def js_sub_def linear_easing_def)

section \<open>Verification: path renderer\<close>

lemma segmentLength_nonneg [simp]: "0 \<le> segmentLength a b"
  by (simp add: segmentLength_def)

lemma polylineLength_nonneg [simp]: "0 \<le> polylineLength ws"
  by (induction ws rule: polylineLength.induct) simp_all

lemma buildSegments_total: "snd (buildSegments acc ws) = acc + polylineLength ws"
  by (induction acc ws rule: buildSegments.induct) (auto simp: Let_def split: prod.splits)

lemma buildSegments_Cons:
  "fst (buildSegments acc (a # b # rest)) =
     \<lparr>seg_start = acc, seg_length = segmentLength a b, seg_from = a, seg_to = b\<rparr>
       # fst (buildSegments (acc + segmentLength a b) (b # rest))"
  by (simp add: Let_def split: prod.splits)

lemma buildSegments_single [simp]: "fst (buildSegments acc [a]) = []"
  by simp

lemma scaled_distance:
  assumes "0 \<le> (f::real)"
  shows "sqrt ((px + (qx - px) * f - px)\<^sup>2 + (py + (qy - py) * f - py)\<^sup>2)
           = f * sqrt ((qx - px)\<^sup>2 + (qy - py)\<^sup>2)"
proof -
  have "(px + (qx - px) * f - px)\<^sup>2 + (py + (qy - py) * f - py)\<^sup>2
          = f\<^sup>2 * ((qx - px)\<^sup>2 + (qy - py)\<^sup>2)"
    by (simp add: power2_eq_square algebra_simps)
  then show ?thesis using assms by (simp add: real_sqrt_mult)
qed

lemma strokeLength_start:
  "(pathStarted \<longrightarrow> pen = Some (wp_x a, wp_y a)) \<Longrightarrow>
   strokeLength pen ((if \<not> pathStarted then [MoveTo (Num (wp_x a)) (Num (wp_y a))] else []) @ cs)
     = strokeLength (Some (wp_x a, wp_y a)) cs"
  by (cases pathStarted) simp_all

lemma drawPathLoop_length:
  assumes "cur \<le> tg" "tg \<le> cur + polylineLength (a # rest)"
    and "pathStarted \<longrightarrow> pen = Some (wp_x a, wp_y a)"
  shows "strokeLength pen (drawPathLoop (fst (buildSegments acc (a # rest))) (Num tg) cur pathStarted)
           = tg - cur"
  using assms
proof (induction rest arbitrary: a acc cur pen pathStarted)
  case Nil
  then show ?case by simp
next
  case (Cons b rest)
  let ?len = "segmentLength a b"
  show ?case
  proof (cases "cur + ?len \<le> tg")
    case True
    have ih: "strokeLength (Some (wp_x b, wp_y b))
                (drawPathLoop (fst (buildSegments (acc + ?len) (b # rest))) (Num tg) (cur + ?len) True)
              = tg - (cur + ?len)"
      using Cons.prems True by (intro Cons.IH) simp_all
    have "strokeLength pen (drawPathLoop (fst (buildSegments acc (a # b # rest))) (Num tg) cur pathStarted)
            = strokeLength (Some (wp_x a, wp_y a))
                (LineTo (Num (wp_x b)) (Num (wp_y b))
                   # drawPathLoop (fst (buildSegments (acc + ?len) (b # rest))) (Num tg) (cur + ?len) True)"
      using True Cons.prems(3)
      by (simp only: buildSegments_Cons drawPathLoop.simps Let_def js_le.simps if_True
            segment.simps strokeLength_start)
    also have "\<dots> = ?len + (tg - (cur + ?len))"
      using ih by (simp add: segmentLength_def)
    finally show ?thesis by simp
  next
    case False
    then have pos: "0 < ?len" using Cons.prems(1) by linarith
    let ?f = "(tg - cur) / ?len"
    have f0: "0 \<le> ?f" using pos Cons.prems(1) by simp
    have "strokeLength pen (drawPathLoop (fst (buildSegments acc (a # b # rest))) (Num tg) cur pathStarted)
            = strokeLength (Some (wp_x a, wp_y a))
                [LineTo (Num (wp_x a + (wp_x b - wp_x a) * ?f)) (Num (wp_y a + (wp_y b - wp_y a) * ?f))]"
      using False pos Cons.prems(3)
      by (simp add: buildSegments_Cons Let_def strokeLength_start del: buildSegments.simps)
    also have "\<dots> = ?f * ?len"
      using scaled_distance [OF f0] by (simp add: segmentLength_def)
    also have "\<dots> = tg - cur" using pos by simp
    finally show ?thesis .
  qed
qed

lemma drawPathLoop_full:
  assumes "cur + polylineLength (a # rest) \<le> tg"
  shows "drawPathLoop (fst (buildSegments acc (a # rest))) (Num tg) cur pathStarted
           = (if rest = [] then []
              else (if \<not> pathStarted then [MoveTo (Num (wp_x a)) (Num (wp_y a))] else [])
                   @ map (\<lambda>v. LineTo (Num (wp_x v)) (Num (wp_y v))) rest)"
  using assms
proof (induction rest arbitrary: a acc cur pathStarted)
  case Nil
  then show ?case by simp
next
  case (Cons b rest)
  let ?len = "segmentLength a b"
  have "polylineLength (a # b # rest) = ?len + polylineLength (b # rest)" by simp
  then have le: "cur + ?len \<le> tg"
    using Cons.prems polylineLength_nonneg [of "b # rest"] by linarith
  have ih: "drawPathLoop (fst (buildSegments (acc + ?len) (b # rest))) (Num tg) (cur + ?len) True
              = (if rest = [] then [] else map (\<lambda>v. LineTo (Num (wp_x v)) (Num (wp_y v))) rest)"
    using Cons.prems by (subst Cons.IH) (simp_all add: add.assoc)
  show ?case
    using le ih by (simp add: buildSegments_Cons Let_def del: buildSegments.simps)
qed

lemma drawRouteProgress_Num:
  assumes "2 \<le> length (waypoints r)"
  shows "drawRouteProgress mt r (Num t) =
           (if 0 < t
            then [drawPathToLength (fst (buildSegments 0 (map (transformWaypoint mt) (waypoints r))))
                    (Num (routeLength mt r * t))]
            else [])
           @ (if 1 \<le> t
              then [drawPathToLength (fst (buildSegments 0 (map (transformWaypoint mt) (waypoints r))))
                      (Num (routeLength mt r))]
              else [])"
proof -
  have "snd (buildSegments 0 (map (transformWaypoint mt) (waypoints r))) = routeLength mt r"
    by (simp add: buildSegments_total routeLength_def)
  then show ?thesis
    using assms by (auto simp: drawRouteProgress_def Let_def split: prod.splits)
qed

lemma drawPathToLength_length:
  assumes "ws \<noteq> []" "0 \<le> tg" "tg \<le> polylineLength ws"
  shows "strokeLength None (drawPathToLength (fst (buildSegments 0 ws)) (Num tg)) = tg"
proof -
  obtain a rest where ws: "ws = a # rest" using assms(1) by (cases ws) auto
  show ?thesis
    using drawPathLoop_length [of 0 tg a rest False None 0] assms(2,3)
    by (simp add: drawPathToLength_def ws)
qed

lemma drawPathToLength_full:
  assumes "2 \<le> length ws"
  shows "drawPathToLength (fst (buildSegments 0 ws)) (Num (polylineLength ws)) = fullPath ws"
proof -
  obtain a b rest where ws: "ws = a # b # rest"
    using assms by (cases ws; cases "tl ws") auto
  show ?thesis
    using drawPathLoop_full [of 0 a "b # rest" "polylineLength ws" 0 False]
    by (simp add: drawPathToLength_def ws fullPath_def del: buildSegments.simps polylineLength.simps)
qed

lemma drawPathLoop_shape:
  assumes "cur \<le> tg" "tg < cur + polylineLength (a # rest)"
  shows "\<exists>k f. k < length rest \<and> 0 \<le> f \<and> f < 1 \<and>
           drawPathLoop (fst (buildSegments acc (a # rest))) (Num tg) cur pathStarted
             = (if \<not> pathStarted then [MoveTo (Num (wp_x a)) (Num (wp_y a))] else [])
               @ map lineToPoint (take k rest)
               @ [interpolated ((a # rest) ! k) (rest ! k) f] \<and>
           tg = cur + polylineLength (take (Suc k) (a # rest))
                  + f * segmentLength ((a # rest) ! k) (rest ! k)"
  using assms
proof (induction rest arbitrary: a acc cur pathStarted)
  case Nil
  then show ?case by simp
next
  case (Cons b rest)
  let ?len = "segmentLength a b"
  show ?case
  proof (cases "cur + ?len \<le> tg")
    case True
    have "tg < (cur + ?len) + polylineLength (b # rest)" using Cons.prems by simp
    from Cons.IH [OF True this, of "acc + ?len" True]
    obtain k f where kf: "k < length rest" "0 \<le> f" "f < 1"
      and path: "drawPathLoop (fst (buildSegments (acc + ?len) (b # rest))) (Num tg) (cur + ?len) True
                   = map lineToPoint (take k rest) @ [interpolated ((b # rest) ! k) (rest ! k) f]"
      and len: "tg = cur + ?len + polylineLength (take (Suc k) (b # rest))
                       + f * segmentLength ((b # rest) ! k) (rest ! k)"
      by auto
    have "drawPathLoop (fst (buildSegments acc (a # b # rest))) (Num tg) cur pathStarted
            = (if \<not> pathStarted then [MoveTo (Num (wp_x a)) (Num (wp_y a))] else [])
              @ map lineToPoint (take (Suc k) (b # rest))
              @ [interpolated ((a # b # rest) ! Suc k) ((b # rest) ! Suc k) f]"
      using True path
      by (simp add: buildSegments_Cons Let_def lineToPoint_def del: buildSegments.simps)
    moreover have "tg = cur + polylineLength (take (Suc (Suc k)) (a # b # rest))
                       + f * segmentLength ((a # b # rest) ! Suc k) ((b # rest) ! Suc k)"
      using len by simp
    moreover have "Suc k < length (b # rest)" using kf by simp
    ultimately show ?thesis using kf by blast
  next
    case False
    then have pos: "0 < ?len" using Cons.prems(1) by linarith
    let ?f = "(tg - cur) / ?len"
    have f: "0 \<le> ?f" "?f < 1" using pos Cons.prems(1) False by simp_all
    have "drawPathLoop (fst (buildSegments acc (a # b # rest))) (Num tg) cur pathStarted
            = (if \<not> pathStarted then [MoveTo (Num (wp_x a)) (Num (wp_y a))] else [])
              @ map lineToPoint (take 0 (b # rest))
              @ [interpolated ((a # b # rest) ! 0) ((b # rest) ! 0) ?f]"
      using False pos
      by (simp add: buildSegments_Cons Let_def interpolated_def del: buildSegments.simps)
    moreover have "tg = cur + polylineLength (take (Suc 0) (a # b # rest))
                       + ?f * segmentLength ((a # b # rest) ! 0) ((b # rest) ! 0)"
      using pos by simp
    moreover have "0 < length (b # rest)" by simp
    ultimately show ?thesis using f by blast
  qed
qed

lemma drawPathToLength_shape:
  assumes "ws \<noteq> []" "0 \<le> tg" "tg < polylineLength ws"
  shows "\<exists>k f. Suc k < length ws \<and> 0 \<le> f \<and> f < 1 \<and>
           drawPathToLength (fst (buildSegments 0 ws)) (Num tg)
             = MoveTo (Num (wp_x (hd ws))) (Num (wp_y (hd ws)))
               # map lineToPoint (take k (tl ws))
               @ [interpolated (ws ! k) (ws ! Suc k) f] \<and>
           tg = polylineLength (take (Suc k) ws) + f * segmentLength (ws ! k) (ws ! Suc k)"
proof -
  obtain a rest where ws: "ws = a # rest" using assms(1) by (cases ws) auto
  from drawPathLoop_shape [of 0 tg a rest 0 False] assms(2,3)
  obtain k f where "k < length rest" "0 \<le> f" "f < 1"
    "drawPathLoop (fst (buildSegments 0 (a # rest))) (Num tg) 0 False
       = MoveTo (Num (wp_x a)) (Num (wp_y a)) # map lineToPoint (take k rest)
         @ [interpolated ((a # rest) ! k) (rest ! k) f]"
    "tg = polylineLength (take (Suc k) (a # rest)) + f * segmentLength ((a # rest) ! k) (rest ! k)"
    by (auto simp: ws)
  then show ?thesis
    by (intro exI [of _ k] exI [of _ f]) (simp add: ws drawPathToLength_def)
qed

text \<open>
  Claim C2. For a route with at least two waypoints and a local progress \<open>t\<close> in
  [0,1], the stroke drawn has length \<open>t\<close> times the length of the route: at 0 no
  stroke is drawn; strictly between 0 and 1 there is one stroke of length
  \<open>t * routeLength\<close>, which (on a route of positive length) runs through the first
  \<open>k\<close> segments in full and ends on the next segment at the point interpolated
  linearly with the fraction \<open>f\<close> that is left of the target length; at 1 the whole
  polyline is drawn (twice: the stroke and the completion outline). The total the code
  accumulates is the length of the polyline.
\<close>

theorem stroke_length_is_progress:
  assumes wps: "2 \<le> length (waypoints r)" and t0: "0 \<le> t" and t1: "t \<le> 1"
  shows "snd (buildSegments 0 (map (transformWaypoint mt) (waypoints r))) = routeLength mt r \<and>
         (t = 0 \<longrightarrow> drawRouteProgress mt r (Num t) = []) \<and>
         (0 < t \<and> t < 1 \<longrightarrow>
            (\<exists>stroke. drawRouteProgress mt r (Num t) = [stroke] \<and>
               strokeLength None stroke = t * routeLength mt r)) \<and>
         (0 < t \<and> t < 1 \<and> 0 < routeLength mt r \<longrightarrow>
            (\<exists>k f. Suc k < length (waypoints r) \<and> 0 \<le> f \<and> f < 1 \<and>
               drawRouteProgress mt r (Num t)
                 = [MoveTo (Num (wp_x (hd (map (transformWaypoint mt) (waypoints r)))))
                           (Num (wp_y (hd (map (transformWaypoint mt) (waypoints r)))))
                    # map lineToPoint (take k (tl (map (transformWaypoint mt) (waypoints r))))
                    @ [interpolated (map (transformWaypoint mt) (waypoints r) ! k)
                                    (map (transformWaypoint mt) (waypoints r) ! Suc k) f]] \<and>
               t * routeLength mt r
                 = polylineLength (take (Suc k) (map (transformWaypoint mt) (waypoints r)))
                   + f * segmentLength (map (transformWaypoint mt) (waypoints r) ! k)
                                       (map (transformWaypoint mt) (waypoints r) ! Suc k))) \<and>
         (t = 1 \<longrightarrow>
            drawRouteProgress mt r (Num t)
              = [fullPath (map (transformWaypoint mt) (waypoints r)),
                 fullPath (map (transformWaypoint mt) (waypoints r))] \<and>
            strokeLength None (fullPath (map (transformWaypoint mt) (waypoints r)))
              = routeLength mt r)"
proof (intro conjI impI)
  let ?tw = "map (transformWaypoint mt) (waypoints r)"
  have ne: "?tw \<noteq> []" and len: "2 \<le> length ?tw" using wps by auto
  have L0: "0 \<le> routeLength mt r" by (simp add: routeLength_def)
  show "snd (buildSegments 0 ?tw) = routeLength mt r"
    by (simp add: buildSegments_total routeLength_def)
  {
    assume "t = 0"
    then show "drawRouteProgress mt r (Num t) = []"
      by (simp add: drawRouteProgress_Num [OF wps])
  }
  {
    assume h: "0 < t \<and> t < 1"
    have "0 \<le> routeLength mt r * t" using L0 h by simp
    moreover have "routeLength mt r * t \<le> routeLength mt r * 1"
      using L0 h by (intro mult_left_mono) simp_all
    ultimately have "strokeLength None (drawPathToLength (fst (buildSegments 0 ?tw))
                        (Num (routeLength mt r * t))) = routeLength mt r * t"
      using ne by (intro drawPathToLength_length) (simp_all add: routeLength_def)
    then show "\<exists>stroke. drawRouteProgress mt r (Num t) = [stroke] \<and>
               strokeLength None stroke = t * routeLength mt r"
      using h by (simp add: drawRouteProgress_Num [OF wps] mult.commute)
  }
  {
    assume h: "0 < t \<and> t < 1 \<and> 0 < routeLength mt r"
    have lo: "0 \<le> routeLength mt r * t" using h by simp
    have "routeLength mt r * t < routeLength mt r * 1"
      using h by (intro mult_strict_left_mono) simp_all
    then have hi: "routeLength mt r * t < polylineLength ?tw" by (simp add: routeLength_def)
    from drawPathToLength_shape [OF ne lo hi]
    obtain k f where kf: "Suc k < length ?tw" "0 \<le> f" "f < 1"
      and path: "drawPathToLength (fst (buildSegments 0 ?tw)) (Num (routeLength mt r * t))
                   = MoveTo (Num (wp_x (hd ?tw))) (Num (wp_y (hd ?tw)))
                     # map lineToPoint (take k (tl ?tw)) @ [interpolated (?tw ! k) (?tw ! Suc k) f]"
      and tg: "routeLength mt r * t
                 = polylineLength (take (Suc k) ?tw) + f * segmentLength (?tw ! k) (?tw ! Suc k)"
      by blast
    have "drawRouteProgress mt r (Num t)
            = [MoveTo (Num (wp_x (hd ?tw))) (Num (wp_y (hd ?tw)))
               # map lineToPoint (take k (tl ?tw)) @ [interpolated (?tw ! k) (?tw ! Suc k) f]]"
      using h path by (simp add: drawRouteProgress_Num [OF wps])
    moreover have "t * routeLength mt r
                 = polylineLength (take (Suc k) ?tw) + f * segmentLength (?tw ! k) (?tw ! Suc k)"
      using tg by (simp add: mult.commute)
    moreover have "Suc k < length (waypoints r)" using kf(1) by simp
    ultimately show "\<exists>k f. Suc k < length (waypoints r) \<and> 0 \<le> f \<and> f < 1 \<and>
               drawRouteProgress mt r (Num t)
                 = [MoveTo (Num (wp_x (hd ?tw))) (Num (wp_y (hd ?tw)))
                    # map lineToPoint (take k (tl ?tw))
                    @ [interpolated (?tw ! k) (?tw ! Suc k) f]] \<and>
               t * routeLength mt r
                 = polylineLength (take (Suc k) ?tw)
                   + f * segmentLength (?tw ! k) (?tw ! Suc k)"
      using kf(2,3) by blast
  }
  {
    assume one: "t = 1"
    have full: "drawPathToLength (fst (buildSegments 0 ?tw)) (Num (routeLength mt r)) = fullPath ?tw"
      using drawPathToLength_full [OF len] by (simp add: routeLength_def)
    then show "drawRouteProgress mt r (Num t) = [fullPath ?tw, fullPath ?tw]"
      using one by (simp add: drawRouteProgress_Num [OF wps])
    have "strokeLength None (drawPathToLength (fst (buildSegments 0 ?tw)) (Num (routeLength mt r)))
            = routeLength mt r"
      using ne L0 by (intro drawPathToLength_length) (simp_all add: routeLength_def)
    then show "strokeLength None (fullPath ?tw) = routeLength mt r"
      using full by simp
  }
qed

lemma sqrt_100: "sqrt 100 = 10"
  by (rule real_sqrt_unique) simp_all

lemma example_segments:
  "segmentLength \<lparr>wp_x = 0, wp_y = 0\<rparr> \<lparr>wp_x = 10, wp_y = 0\<rparr> = 10"
  "segmentLength \<lparr>wp_x = 10, wp_y = 0\<rparr> \<lparr>wp_x = 10, wp_y = 10\<rparr> = 10"
  by (simp_all add: segmentLength_def sqrt_100)

lemma example_transformed:
  "map (transformWaypoint identityTransform) (waypoints (example_route dl du))
     = [\<lparr>wp_x = 0, wp_y = 0\<rparr>, \<lparr>wp_x = 10, wp_y = 0\<rparr>, \<lparr>wp_x = 10, wp_y = 10\<rparr>]"
  by (simp add: example_route_def transformWaypoint_def identityTransform_def)

lemma example_routeLength: "routeLength identityTransform (example_route dl du) = 20"
  by (simp add: routeLength_def example_transformed example_segments)

lemma example_half:
  "drawRouteProgress identityTransform (example_route None None) (Num (1 / 2))
     = [[MoveTo (Num 0) (Num 0), LineTo (Num 10) (Num 0), LineTo (Num 10) (Num 0)]]"
  by (simp add: drawRouteProgress_Num example_routeLength example_transformed
        drawPathToLength_def Let_def example_segments)

text \<open>
  The scenario of the spec: waypoints (0,0), (10,0), (10,10) at progress 1/2 give a
  stroke that ends at (10,0), the end of the first segment.
\<close>

theorem stroke_length_is_progress_witness:
  "2 \<le> length (waypoints (example_route None None)) \<and>
   routeLength identityTransform (example_route None None) = 20 \<and>
   drawRouteProgress identityTransform (example_route None None) (Num 0) = [] \<and>
   drawRouteProgress identityTransform (example_route None None) (Num (1 / 2))
     = [[MoveTo (Num 0) (Num 0), LineTo (Num 10) (Num 0), LineTo (Num 10) (Num 0)]] \<and>
   strokeLength None [MoveTo (Num 0) (Num 0), LineTo (Num 10) (Num 0), LineTo (Num 10) (Num 0)]
     = 1 / 2 * 20 \<and>
   drawRouteProgress identityTransform (example_route None None) (Num 1)
     = [[MoveTo (Num 0) (Num 0), LineTo (Num 10) (Num 0), LineTo (Num 10) (Num 10)],
        [MoveTo (Num 0) (Num 0), LineTo (Num 10) (Num 0), LineTo (Num 10) (Num 10)]]"
  using stroke_length_is_progress [of "example_route None None" 0 identityTransform]
    stroke_length_is_progress [of "example_route None None" "1 / 2" identityTransform]
    stroke_length_is_progress [of "example_route None None" 1 identityTransform]
  by (simp add: example_routeLength example_half example_transformed fullPath_def)

section \<open>Verification: timeline\<close>

lemma timeline_inv_iff:
  "timeline_inv g \<longleftrightarrow> (\<exists>c. currentTime g = Num c \<and> 0 \<le> c \<and> c \<le> totalDuration g)"
  by (cases "currentTime g") (simp_all add: timeline_inv_def)

lemma seekTo_time:
  "currentTime (fst (seekTo time g)) = Num (max 0 (min time (totalDuration g)))"
  "totalDuration (fst (seekTo time g)) = totalDuration g"
  by (simp_all add: seekTo_def Let_def)

lemma seekTo_inv: "0 \<le> totalDuration g \<Longrightarrow> timeline_inv (fst (seekTo time g))"
  by (simp add: timeline_inv_iff seekTo_time)

lemma animate_time:
  assumes "isPlaying g"
  shows "currentTime (fst (animate (Num st) now g))
           = Num (min ((now - st) * playbackSpeed g) (totalDuration g))"
    and "totalDuration (fst (animate (Num st) now g)) = totalDuration g"
    and "isPlaying (fst (animate (Num st) now g)) \<longleftrightarrow> (now - st) * playbackSpeed g < totalDuration g"
  using assms by (auto simp: animate_def Let_def min_def)

lemma startTimeOf_Num:
  "currentTime g = Num c \<Longrightarrow> playbackSpeed g \<noteq> 0 \<Longrightarrow>
   startTimeOf now g = Num (now - c / playbackSpeed g)"
  by (simp add: startTimeOf_def)

lemma elapsed_nonneg:
  assumes "0 \<le> (c::real)" "0 < sp0" "0 < sp" "now0 \<le> now"
  shows "0 \<le> (now - (now0 - c / sp0)) * sp"
proof -
  have "0 \<le> c / sp0" using assms by simp
  then have "0 \<le> now - (now0 - c / sp0)" using assms by linarith
  then show ?thesis using assms by (intro mult_nonneg_nonneg) simp_all
qed

lemma elapsed_drift:
  assumes "0 < (sp::real)"
  shows "(now1 - (now0 - c / sp)) * sp = c + (now1 - now0) * sp"
  using assms by (simp add: field_simps)

lemma startAnimation_time:
  assumes "isPlaying g" "currentTime g = Num c" "0 < playbackSpeed g"
  shows "currentTime (fst (startAnimation now0 now1 g))
           = Num (min (c + (now1 - now0) * playbackSpeed g) (totalDuration g))"
    and "isPlaying (fst (startAnimation now0 now1 g))
           \<longleftrightarrow> c + (now1 - now0) * playbackSpeed g < totalDuration g"
    and "totalDuration (fst (startAnimation now0 now1 g)) = totalDuration g"
proof -
  have st: "startTimeOf now0 g = Num (now0 - c / playbackSpeed g)"
    using assms by (intro startTimeOf_Num) simp_all
  note dr = elapsed_drift [OF assms(3), of now1 now0 c]
  show "currentTime (fst (startAnimation now0 now1 g))
           = Num (min (c + (now1 - now0) * playbackSpeed g) (totalDuration g))"
    using assms(1) by (simp only: startAnimation_def st animate_time dr)
  show "isPlaying (fst (startAnimation now0 now1 g))
           \<longleftrightarrow> c + (now1 - now0) * playbackSpeed g < totalDuration g"
    using assms(1) by (simp only: startAnimation_def st animate_time dr)
  show "totalDuration (fst (startAnimation now0 now1 g)) = totalDuration g"
    using assms(1) by (simp only: startAnimation_def st animate_time)
qed

lemma playPreview_time:
  assumes "\<not> isPlaying g" "currentTime g = Num c" "0 < playbackSpeed g"
  shows "currentTime (fst (playPreview now0 now1 g))
           = Num (min (c + (now1 - now0) * playbackSpeed g) (totalDuration g))"
    and "isPlaying (fst (playPreview now0 now1 g))
           \<longleftrightarrow> c + (now1 - now0) * playbackSpeed g < totalDuration g"
proof -
  let ?g = "g\<lparr>isPlaying := True\<rparr>"
  have p: "isPlaying ?g" "currentTime ?g = Num c" "0 < playbackSpeed ?g"
    using assms by simp_all
  have eq: "playPreview now0 now1 g = startAnimation now0 now1 ?g"
    using assms(1) by (simp add: playPreview_def)
  show "currentTime (fst (playPreview now0 now1 g))
           = Num (min (c + (now1 - now0) * playbackSpeed g) (totalDuration g))"
    using startAnimation_time(1) [OF p, of now0 now1] by (simp add: eq)
  show "isPlaying (fst (playPreview now0 now1 g))
           \<longleftrightarrow> c + (now1 - now0) * playbackSpeed g < totalDuration g"
    using startAnimation_time(2) [OF p, of now0 now1] by (simp add: eq)
qed

lemma animate_inv:
  assumes g: "timeline_inv g" "0 < playbackSpeed g"
    and g': "timeline_inv g'" "0 < playbackSpeed g'" and clk: "now0 \<le> now"
  shows "timeline_inv (fst (animate (startTimeOf now0 g) now g'))"
proof (cases "isPlaying g'")
  case False
  then show ?thesis using g' by (simp add: animate_def)
next
  case True
  obtain c where c: "currentTime g = Num c" "0 \<le> c" using g(1) by (auto simp: timeline_inv_iff)
  have T: "0 \<le> totalDuration g'" using g'(1) by (auto simp: timeline_inv_iff)
  have st: "startTimeOf now0 g = Num (now0 - c / playbackSpeed g)"
    using c g(2) by (intro startTimeOf_Num) simp_all
  have "0 \<le> (now - (now0 - c / playbackSpeed g)) * playbackSpeed g'"
    using c g(2) g'(2) clk by (intro elapsed_nonneg)
  then show ?thesis
    using True T by (simp add: timeline_inv_iff st animate_time)
qed

lemma playPreview_inv:
  assumes g: "timeline_inv g" "0 < playbackSpeed g" and clk: "now0 \<le> now1"
  shows "timeline_inv (fst (playPreview now0 now1 g))"
proof (cases "isPlaying g")
  case True
  then show ?thesis using g by (simp add: playPreview_def)
next
  case False
  let ?g = "g\<lparr>isPlaying := True\<rparr>"
  have "timeline_inv ?g" "0 < playbackSpeed ?g" using g by (simp_all add: timeline_inv_def)
  then have "timeline_inv (fst (animate (startTimeOf now0 ?g) now1 ?g))"
    using clk by (intro animate_inv)
  then show ?thesis using False by (simp add: playPreview_def startAnimation_def)
qed

text \<open>
  Claim C7, as the code has it. \<open>seekTo\<close> clamps its argument to
  \<open>[0, totalDuration]\<close> in any state, \<open>stopPreview\<close> resets the time to 0 and
  \<open>pausePreview\<close> keeps it, and a tick that reaches the end sets the time to
  \<open>totalDuration\<close> and stops playing. \<open>playPreview\<close> and the ticks have no lower
  clamp: play from the time \<open>c\<close> sets the time to
  \<open>min (c + (now1 - now0) * playbackSpeed, totalDuration)\<close>. They keep the invariant
  when the playback speed is positive and the clock has not run backwards since
  \<open>startAnimation\<close> read it.
\<close>

theorem timeline_invariant_preserved:
  "currentTime (fst (seekTo time g)) = Num (max 0 (min time (totalDuration g))) \<and>
   (0 \<le> totalDuration g \<longrightarrow> timeline_inv (fst (seekTo time g))) \<and>
   currentTime (fst (stopPreview g)) = Num 0 \<and>
   (0 \<le> totalDuration g \<longrightarrow> timeline_inv (fst (stopPreview g))) \<and>
   currentTime (pausePreview g) = currentTime g \<and>
   (timeline_inv g \<longrightarrow> timeline_inv (pausePreview g)) \<and>
   (timeline_inv g \<and> 0 < playbackSpeed g \<and> now0 \<le> now1 \<longrightarrow>
      timeline_inv (fst (playPreview now0 now1 g))) \<and>
   (\<not> isPlaying g \<and> currentTime g = Num c \<and> 0 < playbackSpeed g \<longrightarrow>
      currentTime (fst (playPreview now0 now1 g))
        = Num (min (c + (now1 - now0) * playbackSpeed g) (totalDuration g))) \<and>
   (timeline_inv g \<and> 0 < playbackSpeed g \<and> timeline_inv g' \<and> 0 < playbackSpeed g' \<and>
    now0 \<le> now \<longrightarrow>
      timeline_inv (fst (animate (startTimeOf now0 g) now g'))) \<and>
   (isPlaying g' \<and>
    js_ge (js_mul (js_sub (Num now) (startTimeOf now0 g)) (Num (playbackSpeed g')))
          (Num (totalDuration g')) \<longrightarrow>
      currentTime (fst (animate (startTimeOf now0 g) now g')) = Num (totalDuration g') \<and>
      \<not> isPlaying (fst (animate (startTimeOf now0 g) now g')))"
proof (intro conjI impI)
  show "currentTime (fst (seekTo time g)) = Num (max 0 (min time (totalDuration g)))"
    by (rule seekTo_time)
  show "currentTime (fst (stopPreview g)) = Num 0" by (simp add: stopPreview_def)
  show "currentTime (pausePreview g) = currentTime g" by (simp add: pausePreview_def)
  {
    assume "0 \<le> totalDuration g"
    then show "timeline_inv (fst (seekTo time g))" by (rule seekTo_inv)
  }
  {
    assume "0 \<le> totalDuration g"
    then show "timeline_inv (fst (stopPreview g))"
      by (simp add: stopPreview_def timeline_inv_def)
  }
  {
    assume "timeline_inv g"
    then show "timeline_inv (pausePreview g)" by (simp add: pausePreview_def timeline_inv_def)
  }
  {
    assume "timeline_inv g \<and> 0 < playbackSpeed g \<and> now0 \<le> now1"
    then show "timeline_inv (fst (playPreview now0 now1 g))" by (intro playPreview_inv) simp_all
  }
  {
    assume "\<not> isPlaying g \<and> currentTime g = Num c \<and> 0 < playbackSpeed g"
    then show "currentTime (fst (playPreview now0 now1 g))
        = Num (min (c + (now1 - now0) * playbackSpeed g) (totalDuration g))"
      by (intro playPreview_time) simp_all
  }
  {
    assume "timeline_inv g \<and> 0 < playbackSpeed g \<and> timeline_inv g' \<and> 0 < playbackSpeed g' \<and>
      now0 \<le> now"
    then show "timeline_inv (fst (animate (startTimeOf now0 g) now g'))"
      by (intro animate_inv) simp_all
  }
  {
    assume h: "isPlaying g' \<and>
      js_ge (js_mul (js_sub (Num now) (startTimeOf now0 g)) (Num (playbackSpeed g')))
            (Num (totalDuration g'))"
    then show "currentTime (fst (animate (startTimeOf now0 g) now g')) = Num (totalDuration g')"
      by (simp add: animate_def Let_def)
    from h show "\<not> isPlaying (fst (animate (startTimeOf now0 g) now g'))"
      by (simp add: animate_def Let_def)
  }
qed

lemma initialGenerator_simps [simp]:
  "hasPreviewCanvas initialGenerator" "\<not> isPlaying initialGenerator"
  "currentTime initialGenerator = Num 0" "totalDuration initialGenerator = 5000"
  "playbackSpeed initialGenerator = 1" "\<not> isExporting initialGenerator"
  "vs_fps (videoSettings initialGenerator) = 30"
  by (simp_all add: initialGenerator_def)

theorem timeline_invariant_preserved_witness:
  "0 \<le> totalDuration initialGenerator \<and> timeline_inv initialGenerator \<and>
   0 < playbackSpeed initialGenerator \<and> (100::real) \<le> 116 \<and>
   \<not> isPlaying initialGenerator \<and> currentTime initialGenerator = Num 0 \<and>
   currentTime (fst (seekTo 7000 initialGenerator)) = Num 5000 \<and>
   currentTime (fst (seekTo (- 3) initialGenerator)) = Num 0 \<and>
   timeline_inv (fst (seekTo 7000 initialGenerator)) \<and>
   timeline_inv (fst (stopPreview initialGenerator)) \<and>
   timeline_inv (pausePreview initialGenerator) \<and>
   timeline_inv (fst (playPreview 100 116 initialGenerator)) \<and>
   currentTime (fst (playPreview 100 116 initialGenerator)) = Num 16 \<and>
   timeline_inv (fst (playPreview 100 116 initialGenerator)) \<and>
   0 < playbackSpeed (fst (playPreview 100 116 initialGenerator)) \<and> (100::real) \<le> 6000 \<and>
   timeline_inv (fst (animate (startTimeOf 100 initialGenerator) 6000
                  (fst (playPreview 100 116 initialGenerator)))) \<and>
   isPlaying (fst (playPreview 100 116 initialGenerator)) \<and>
   js_ge (js_mul (js_sub (Num 6000) (startTimeOf 100 initialGenerator))
            (Num (playbackSpeed (fst (playPreview 100 116 initialGenerator)))))
         (Num (totalDuration (fst (playPreview 100 116 initialGenerator)))) \<and>
   currentTime (fst (animate (startTimeOf 100 initialGenerator) 6000
                  (fst (playPreview 100 116 initialGenerator)))) = Num 5000 \<and>
   \<not> isPlaying (fst (animate (startTimeOf 100 initialGenerator) 6000
                  (fst (playPreview 100 116 initialGenerator))))"
proof -
  have i: "timeline_inv initialGenerator" by (simp add: timeline_inv_def)
  have p: "fst (playPreview 100 116 initialGenerator)
             = initialGenerator\<lparr>isPlaying := True, currentTime := Num 16\<rparr>"
    by (simp add: playPreview_def startAnimation_def animate_def startTimeOf_def Let_def)
  have st: "startTimeOf 100 initialGenerator = Num 100"
    by (simp add: startTimeOf_def)
  have q: "timeline_inv (initialGenerator\<lparr>isPlaying := True, currentTime := Num 16\<rparr>)"
    by (simp add: timeline_inv_def)
  show ?thesis
    using i q
      timeline_invariant_preserved [where g = initialGenerator and ?now0.0 = 100
         and ?now1.0 = 116 and time = 7000 and c = 0
         and g' = "fst (playPreview 100 116 initialGenerator)" and now = 6000]
      timeline_invariant_preserved [where g = initialGenerator and ?now0.0 = 100
         and ?now1.0 = 116 and time = "- 3" and c = 0
         and g' = "fst (playPreview 100 116 initialGenerator)" and now = 6000]
    by (simp add: p st)
qed

text \<open>
  The claim as the spec states it fails for play and tick. When the clock has moved
  back by 10 ms between the two reads of \<open>startAnimation\<close> the time becomes negative,
  and with a playback speed of 0 it becomes \<open>NaN\<close>; in both cases the state before
  satisfies the invariant and the state after does not.
\<close>

theorem timeline_invariant_counterexample:
  "timeline_inv initialGenerator \<and>
   currentTime (fst (playPreview 100 90 initialGenerator)) = Num (- 10) \<and>
   \<not> timeline_inv (fst (playPreview 100 90 initialGenerator)) \<and>
   timeline_inv (initialGenerator\<lparr>playbackSpeed := 0\<rparr>) \<and>
   currentTime (fst (playPreview 100 116 (initialGenerator\<lparr>playbackSpeed := 0\<rparr>))) = NaN \<and>
   \<not> timeline_inv (fst (playPreview 100 116 (initialGenerator\<lparr>playbackSpeed := 0\<rparr>)))"
  by (simp add: timeline_inv_def playPreview_def startAnimation_def animate_def
        startTimeOf_def js_sub_def js_ge_def Let_def)




section \<open>Verification: double rounding\<close>

text \<open>
  \<open>toDouble\<close> in a known binade: for \<open>2^k \<le> |v| < 2^(k+1)\<close> and for
  \<open>2^(-k) \<le> |v| < 2^(1-k)\<close> the rounding is a rounding of integers, which evaluates.
\<close>

lemma toDouble_binade:
  assumes "2 powr (of_int e) \<le> \<bar>v\<bar>" "\<bar>v\<bar> < 2 powr (of_int e + 1)"
  shows "toDouble v = of_int (roundTiesToEven (v / 2 powr (of_int e - 52))) * 2 powr (of_int e - 52)"
proof -
  have "0 < 2 powr (of_int e :: real)" by simp
  then have pos: "0 < \<bar>v\<bar>" using assms(1) by linarith
  have "\<lfloor>log 2 \<bar>v\<bar>\<rfloor> = e"
    using floor_log_eq_powr_iff [of "\<bar>v\<bar>" 2 e] pos assms by simp
  moreover have "v \<noteq> 0" using pos by simp
  ultimately show ?thesis by (simp add: toDouble_def Let_def)
qed

lemma toDouble_up:
  assumes "2 ^ k \<le> \<bar>v\<bar>" "\<bar>v\<bar> < 2 * 2 ^ k" "k \<le> 52"
  shows "toDouble v = of_int (roundTiesToEven (v * 2 ^ (52 - k))) / 2 ^ (52 - k)"
proof -
  have a: "2 powr (of_int (int k)) = (2::real) ^ k" by (simp add: powr_realpow)
  have b: "2 powr (of_int (int k) + 1) = (2::real) * 2 ^ k" by (simp add: powr_add powr_realpow)
  have "real_of_int (int k) - 52 = - real (52 - k)" using assms(3) by simp
  then have "2 powr (of_int (int k) - 52) = 2 powr (- real (52 - k))"
    by (rule arg_cong [where f = "\<lambda>t. 2 powr t"])
  also have "\<dots> = 1 / (2::real) ^ (52 - k)"
    using powr_realpow [of 2 "52 - k"] by (simp only: powr_minus_divide)
  finally have c: "2 powr (of_int (int k) - 52) = 1 / (2::real) ^ (52 - k)" .
  have "toDouble v = of_int (roundTiesToEven (v / 2 powr (of_int (int k) - 52))) * 2 powr (of_int (int k) - 52)"
    using assms(1,2) by (intro toDouble_binade) (simp_all only: a b)
  then show ?thesis by (simp only: c) simp
qed

lemma toDouble_down:
  assumes "1 \<le> \<bar>v\<bar> * 2 ^ k" "\<bar>v\<bar> * 2 ^ k < 2"
  shows "toDouble v = of_int (roundTiesToEven (v * 2 ^ (52 + k))) / 2 ^ (52 + k)"
proof -
  have a: "2 powr (of_int (- int k)) = 1 / (2::real) ^ k" by (simp add: powr_minus_divide powr_realpow)
  have "2 powr (of_int (- int k) + 1) = 2 powr (of_int (- int k)) * (2::real)"
    by (simp only: powr_add) simp
  then have b: "2 powr (of_int (- int k) + 1) = 2 / (2::real) ^ k" by (simp only: a)
  have "real_of_int (- int k) - 52 = - real (52 + k)" by simp
  then have "2 powr (of_int (- int k) - 52) = 2 powr (- real (52 + k))"
    by (rule arg_cong [where f = "\<lambda>t. 2 powr t"])
  also have "\<dots> = 1 / (2::real) ^ (52 + k)"
    using powr_realpow [of 2 "52 + k"] by (simp only: powr_minus_divide)
  finally have c: "2 powr (of_int (- int k) - 52) = 1 / (2::real) ^ (52 + k)" .
  have lo: "1 / 2 ^ k \<le> \<bar>v\<bar>" using assms(1) by (simp add: field_simps)
  have hi: "\<bar>v\<bar> < 2 / 2 ^ k" using assms(2) by (simp add: field_simps)
  have "toDouble v = of_int (roundTiesToEven (v / 2 powr (of_int (- int k) - 52))) * 2 powr (of_int (- int k) - 52)"
    using lo hi by (intro toDouble_binade) (simp_all only: a b)
  then show ?thesis by (simp only: c) simp
qed

lemma toDouble_0: "toDouble 0 = 0"
  by (simp add: toDouble_def)

text \<open>A timeline of 1000 ms: \<open>1000 / 1000\<close> and \<open>1 * 30\<close> are exact.\<close>

lemma toDouble_1: "toDouble 1 = 1"
  using toDouble_up [of 0 1] by (simp add: roundTiesToEven_def)

lemma toDouble_30: "toDouble 30 = 30"
  using toDouble_up [of 4 30] by (simp add: roundTiesToEven_def)

text \<open>A timeline of 125 ms: \<open>125 / 1000\<close> and \<open>0.125 * 30\<close> are exact.\<close>

lemma toDouble_eighth: "toDouble (1 / 8) = 1 / 8"
  using toDouble_down [of "1 / 8" 3] by (simp add: roundTiesToEven_def)

lemma toDouble_eighth_30: "toDouble (1 / 8 * 30) = 15 / 4"
  using toDouble_up [of 1 "1 / 8 * 30"] by (simp add: roundTiesToEven_def)

text \<open>
  A timeline of 8300 ms: \<open>8300 / 1000\<close> rounds up to the double above 8.3, and its
  product with 30 rounds to the double above 249, so that \<open>Math.ceil\<close> gives 250.
\<close>

lemma toDouble_83_10: "toDouble (83 / 10) = 4672484613396890 / 2 ^ 49"
  using toDouble_up [of 3 "83 / 10"] by (simp add: roundTiesToEven_def)

lemma toDouble_83_10_30:
  "toDouble (4672484613396890 / 2 ^ 49 * 30) = 8760908650119169 / 2 ^ 45"
  using toDouble_up [of 7 "4672484613396890 / 2 ^ 49 * 30"] by (simp add: roundTiesToEven_def)

lemma totalFrames_8300: "nat \<lceil>toDouble (toDouble (83 / 10) * 30)\<rceil> = 250"
  by (simp only: toDouble_83_10 toDouble_83_10_30) simp

lemma totalFrames_125: "nat \<lceil>toDouble (toDouble (1 / 8) * 30)\<rceil> = 4"
  by (simp only: toDouble_eighth toDouble_eighth_30) simp

lemma totalFrames_1000: "nat \<lceil>toDouble (toDouble 1 * 30)\<rceil> = 30"
  by (simp add: toDouble_1 toDouble_30)

text \<open>
  The export progress at frame 47 of 70: \<open>47 / 70\<close> rounds down, its product with 70
  rounds to the double below 47, and \<open>Math.floor\<close> gives 46.
\<close>

lemma toDouble_47_70: "toDouble (47 / 70) = 6047690928183237 / 2 ^ 53"
  using toDouble_down [of "47 / 70" 1] by (simp add: roundTiesToEven_def)

lemma toDouble_47_70_70:
  "toDouble (6047690928183237 / 2 ^ 53 * 70) = 6614661952700415 / 2 ^ 47"
  using toDouble_up [of 5 "6047690928183237 / 2 ^ 53 * 70"] by (simp add: roundTiesToEven_def)

lemma exportProgress_rounded:
  "exportProgress (snd (captureLoop 30 70 noThrow 1 47 g [])) = 46"
proof -
  have "\<lfloor>toDouble (toDouble (47 / 70) * 70)\<rfloor> = 46"
    by (simp only: toDouble_47_70 toDouble_47_70_70) simp
  then show ?thesis by (simp add: Let_def noThrow_def)
qed

section \<open>Verification: frame capture\<close>


lemma captureLoop_step:
  "captureLoop fps tf noThrow (Suc n) i g acc =
     captureLoop fps tf noThrow n (Suc i)
       (g\<lparr>currentTime := frameTime (sampledFrame fps (totalDuration g) i),
          exportProgress := \<lfloor>toDouble (toDouble (real i / real tf) * 70)\<rfloor>\<rparr>)
       (acc @ [sampledFrame fps (totalDuration g) i])"
  by (simp only: captureLoop.simps Let_def noThrow_def sampledFrame_def if_False
        generator.simps frame.simps)

lemma captureLoop_frames:
  "fst (captureLoop fps tf noThrow n i g acc)
     = Inr (acc @ map (sampledFrame fps (totalDuration g)) [i..<i + n])"
proof (induction n arbitrary: i g acc)
  case 0
  then show ?case by simp
next
  case (Suc n)
  have range: "[i..<i + Suc n] = i # [Suc i..<Suc i + n]"
    by (simp add: upt_conv_Cons del: upt_Suc)
  have "fst (captureLoop fps tf noThrow (Suc n) i g acc)
          = Inr ((acc @ [sampledFrame fps (totalDuration g) i])
                 @ map (sampledFrame fps (totalDuration g)) [Suc i..<Suc i + n])"
    by (simp only: captureLoop_step Suc.IH) simp
  then show ?case by (simp only: range) simp
qed


lemma capture_result:
  assumes "hasPreviewCanvas g"
  shows "fst (captureAnimationFrames throws now0 now1 g) =
           fst (captureLoop 30
                  (nat \<lceil>toDouble (toDouble (totalDuration g / 1000) * 30)\<rceil>) throws
                  (nat \<lceil>toDouble (toDouble (totalDuration g / 1000) * 30)\<rceil>) 0
                  (pausePreview (g\<lparr>isExporting := True\<rparr>)) [])"
  using assms by (simp add: captureAnimationFrames_def Let_def split: prod.splits)






lemma sampledFrame_30:
  assumes "T \<noteq> 0"
  shows "sampledFrame 30 T i =
           \<lparr>frameIndex = i, frameTime = Num (real i * 1000 / 30),
            frameProgress = Num (min (real i * 1000 / 30 / T) 1)\<rparr>"
  using assms by (simp add: sampledFrame_def)

lemma capture_frames_noThrow:
  assumes "hasPreviewCanvas g"
  shows "fst (captureAnimationFrames noThrow now0 now1 g)
           = Inr (map (sampledFrame 30 (totalDuration g))
                    [0..<nat \<lceil>toDouble (toDouble (totalDuration g / 1000) * 30)\<rceil>])"
  using assms by (simp add: capture_result captureLoop_frames pausePreview_def)

lemma no_frames_of_empty_timeline:
  assumes "i < nat \<lceil>toDouble (toDouble (T / 1000) * 30)\<rceil>"
  shows "T \<noteq> 0"
proof
  assume "T = 0"
  then have "nat \<lceil>toDouble (toDouble (T / 1000) * 30)\<rceil> = 0" by (simp add: toDouble_0)
  then show False using assms by simp
qed

text \<open>
  Claim C6, as the code has it. The capture runs at the fixed rate of 30 frames per
  second. The number of frames is \<open>Math.ceil\<close> of the double
  \<open>(totalDuration / 1000) * 30\<close>: it is \<open>ceil(30 * totalDuration / 1000)\<close> when the
  quotient and the product are exact in doubles. Frame \<open>i\<close> is sampled at the time
  \<open>i * 1000 / 30\<close> and rendered at the progress \<open>min(time / totalDuration, 1)\<close>, which
  never exceeds 1; the time is not clamped.
\<close>

theorem frames_sampled_at_30fps:
  assumes canvas: "hasPreviewCanvas g"
  shows "\<exists>frames. fst (captureAnimationFrames noThrow now0 now1 g) = Inr frames \<and>
           length frames = nat \<lceil>toDouble (toDouble (totalDuration g / 1000) * 30)\<rceil> \<and>
           (toDouble (totalDuration g / 1000) = totalDuration g / 1000 \<and>
            toDouble (totalDuration g / 1000 * 30) = totalDuration g / 1000 * 30 \<longrightarrow>
              length frames = nat \<lceil>30 * totalDuration g / 1000\<rceil>) \<and>
           (\<forall>i < length frames.
              frames ! i = \<lparr>frameIndex = i, frameTime = Num (real i * 1000 / 30),
                             frameProgress = Num (min (real i * 1000 / 30 / totalDuration g) 1)\<rparr> \<and>
              min (real i * 1000 / 30 / totalDuration g) 1 \<le> 1)"
proof -
  let ?tf = "nat \<lceil>toDouble (toDouble (totalDuration g / 1000) * 30)\<rceil>"
  let ?frames = "map (sampledFrame 30 (totalDuration g)) [0..<?tf]"
  have len: "length ?frames = ?tf" by simp
  have exact: "length ?frames = nat \<lceil>30 * totalDuration g / 1000\<rceil>"
    if h: "toDouble (totalDuration g / 1000) = totalDuration g / 1000 \<and>
           toDouble (totalDuration g / 1000 * 30) = totalDuration g / 1000 * 30"
  proof -
    have "toDouble (toDouble (totalDuration g / 1000) * 30) = totalDuration g / 1000 * 30"
      using h by (simp only:)
    then have "?tf = nat \<lceil>totalDuration g / 1000 * 30\<rceil>" by (simp only:)
    also have "\<dots> = nat \<lceil>30 * totalDuration g / 1000\<rceil>" by (simp add: mult.commute)
    finally show ?thesis using len by (simp only:)
  qed
  have each: "?frames ! i = \<lparr>frameIndex = i, frameTime = Num (real i * 1000 / 30),
                             frameProgress = Num (min (real i * 1000 / 30 / totalDuration g) 1)\<rparr> \<and>
              min (real i * 1000 / 30 / totalDuration g) 1 \<le> 1" if "i < length ?frames" for i
  proof -
    have i: "i < ?tf" using that by (simp only: len)
    then have "totalDuration g \<noteq> 0" by (rule no_frames_of_empty_timeline)
    then show ?thesis using i by (simp add: sampledFrame_30)
  qed
  have "fst (captureAnimationFrames noThrow now0 now1 g) = Inr ?frames"
    using canvas by (rule capture_frames_noThrow)
  then show ?thesis using len exact each by blast
qed

lemma example_frames:
  "fst (captureAnimationFrames noThrow 0 0 (initialGenerator\<lparr>totalDuration := 125\<rparr>))
     = Inr [\<lparr>frameIndex = 0, frameTime = Num 0, frameProgress = Num 0\<rparr>,
            \<lparr>frameIndex = 1, frameTime = Num (100 / 3), frameProgress = Num (4 / 15)\<rparr>,
            \<lparr>frameIndex = 2, frameTime = Num (200 / 3), frameProgress = Num (8 / 15)\<rparr>,
            \<lparr>frameIndex = 3, frameTime = Num 100, frameProgress = Num (4 / 5)\<rparr>]"
proof -
  have "[0..<4] = [0, 1, 2, 3]" by (simp add: upt_rec)
  then show ?thesis
    by (simp add: capture_frames_noThrow totalFrames_125 sampledFrame_def)
qed

theorem frames_sampled_at_30fps_witness:
  "hasPreviewCanvas (initialGenerator\<lparr>totalDuration := 125\<rparr>) \<and>
   toDouble (totalDuration (initialGenerator\<lparr>totalDuration := 125\<rparr>) / 1000)
     = totalDuration (initialGenerator\<lparr>totalDuration := 125\<rparr>) / 1000 \<and>
   toDouble (totalDuration (initialGenerator\<lparr>totalDuration := 125\<rparr>) / 1000 * 30)
     = totalDuration (initialGenerator\<lparr>totalDuration := 125\<rparr>) / 1000 * 30 \<and>
   nat \<lceil>30 * totalDuration (initialGenerator\<lparr>totalDuration := 125\<rparr>) / 1000\<rceil> = 4 \<and>
   fst (captureAnimationFrames noThrow 0 0 (initialGenerator\<lparr>totalDuration := 125\<rparr>))
     = Inr [\<lparr>frameIndex = 0, frameTime = Num 0, frameProgress = Num 0\<rparr>,
            \<lparr>frameIndex = 1, frameTime = Num (100 / 3), frameProgress = Num (4 / 15)\<rparr>,
            \<lparr>frameIndex = 2, frameTime = Num (200 / 3), frameProgress = Num (8 / 15)\<rparr>,
            \<lparr>frameIndex = 3, frameTime = Num 100, frameProgress = Num (4 / 5)\<rparr>]"
proof -
  have a: "toDouble (125 / 1000) = 125 / 1000" using toDouble_eighth by simp
  have b: "toDouble (125 / 1000 * 30) = 125 / 1000 * 30" using toDouble_eighth_30 by simp
  have c: "nat \<lceil>(30::real) * 125 / 1000\<rceil> = 4" by simp
  show ?thesis
    using frames_sampled_at_30fps [of "initialGenerator\<lparr>totalDuration := 125\<rparr>" 0 0]
      example_frames a b c
    by simp
qed

text \<open>
  The claim as the spec states it fails in two ways. The frame rate of the video
  settings is not read: with \<open>fps = 60\<close> and a duration of one second the capture
  records 30 frames, not 60. And the count is taken after the rounding of the doubles:
  for a duration of 8300 ms it is 250, one more than \<open>ceil(30 * 8300 / 1000) = 249\<close>,
  and the last frame is sampled at the end of the timeline, at progress 1.
\<close>

theorem frames_counterexample:
  "vs_fps (videoSettings (initialGenerator
      \<lparr>totalDuration := 1000, videoSettings := (videoSettings initialGenerator)\<lparr>vs_fps := 60\<rparr>\<rparr>)) = 60 \<and>
   frameCount (fst (captureAnimationFrames noThrow 0 0 (initialGenerator
      \<lparr>totalDuration := 1000, videoSettings := (videoSettings initialGenerator)\<lparr>vs_fps := 60\<rparr>\<rparr>)))
     = Some 30 \<and>
   nat \<lceil>(60::real) * 1000 / 1000\<rceil> = 60 \<and>
   frameCount (fst (captureAnimationFrames noThrow 0 0 (initialGenerator\<lparr>totalDuration := 8300\<rparr>)))
     = Some 250 \<and>
   nat \<lceil>(30::real) * 8300 / 1000\<rceil> = 249 \<and>
   sampledFrame 30 8300 249 = \<lparr>frameIndex = 249, frameTime = Num 8300, frameProgress = Num 1\<rparr>"
  by (simp add: capture_frames_noThrow frameCount_def totalFrames_1000 totalFrames_8300
        sampledFrame_def)

section \<open>Verification: branch routes\<close>

text \<open>
  Claim C9. The delay of a branch route is \<open>parentDelay || (0 + 500)\<close>: the parent's
  delay when that is truthy (a number other than 0), and 500 when the parent's delay is
  zero or unset (or any other falsy value).
\<close>

theorem branch_delay_precedence:
  "currentRoute (createBranchFromWaypoint newId (Some wp) (Some src) mc)
     = Some (branchRouteOf newId wp src) \<and>
   animation_delay (branchRouteOf newId wp src) = Some (js_or (animation_delay src) (Num 500)) \<and>
   (animation_delay src = Some v \<and> js_truthy v \<longrightarrow>
      animation_delay (branchRouteOf newId wp src) = Some v) \<and>
   (animation_delay src = None \<or> animation_delay src = Some (Num 0) \<or>
    (animation_delay src = Some v \<and> \<not> js_truthy v) \<longrightarrow>
      animation_delay (branchRouteOf newId wp src) = Some (Num 500))"
  by (auto simp: createBranchFromWaypoint_def branchRouteOf_def animation_delay_def js_or_def)

theorem branch_delay_precedence_witness:
  "animation_delay (example_route (Some (Num 1000)) None) = Some (Num 1000) \<and>
   js_truthy (Num 1000) \<and>
   animation_delay (branchRouteOf ''route_2'' \<lparr>wp_x = 10, wp_y = 0\<rparr>
                      (example_route (Some (Num 1000)) None)) = Some (Num 1000) \<and>
   animation_delay (example_route (Some (Num 0)) None) = Some (Num 0) \<and>
   animation_delay (branchRouteOf ''route_2'' \<lparr>wp_x = 10, wp_y = 0\<rparr>
                      (example_route (Some (Num 0)) None)) = Some (Num 500) \<and>
   animation_delay (example_route None None) = None \<and>
   animation_delay (branchRouteOf ''route_2'' \<lparr>wp_x = 10, wp_y = 0\<rparr>
                      (example_route None None)) = Some (Num 500)"
  using
    branch_delay_precedence [of "''route_2''" "\<lparr>wp_x = 10, wp_y = 0\<rparr>"
       "example_route (Some (Num 1000)) None" _ "Num 1000"]
    branch_delay_precedence [of "''route_2''" "\<lparr>wp_x = 10, wp_y = 0\<rparr>"
       "example_route (Some (Num 0)) None" _ "Num 0"]
    branch_delay_precedence [of "''route_2''" "\<lparr>wp_x = 10, wp_y = 0\<rparr>"
       "example_route None None" _ "Num 0"]
  by (simp add: js_or_def)

section \<open>Verification: encoding tiers\<close>

lemma processVideoStart_valid:
  assumes "job_routes j \<noteq> []" "job_mapImage j \<noteq> None"
  shows "processVideoStart j = j\<lparr>job_status := Processing\<rparr>"
  using assms by (auto simp: processVideoStart_def Let_def)

text \<open>
  Claim C5, as the code has it. On the server the choice between real video and the
  fallback is a test of the two capabilities, and a real video that fails puts the job
  in \<open>error\<close> with no retry; but a static image that fails is followed by the manifest
  within the same job. On the client \<open>createVideoFromFrames\<close> is a ladder: the WebM
  recording, then the alternative recording when the first throws or gives a blob of at
  most 1000 bytes, then the JSON of the frames when the second throws; it never fails.
\<close>

theorem encoding_tiers:
  assumes valid: "job_routes j \<noteq> []" "job_mapImage j \<noteq> None"
  shows "(hasCanvas caps \<and> hasFfmpeg caps \<and> realVideo out = Inl err \<longrightarrow>
            processVideo caps out j = jobFailed err (j\<lparr>job_status := Processing\<rparr>)) \<and>
         (hasCanvas caps \<and> hasFfmpeg caps \<and> realVideo out = Inr outFile \<longrightarrow>
            processVideo caps out j = jobCompleted outFile (j\<lparr>job_status := Processing\<rparr>)) \<and>
         (hasCanvas caps \<and> \<not> hasFfmpeg caps \<and> staticImage out = Inr outFile \<longrightarrow>
            processVideo caps out j = jobCompleted outFile (j\<lparr>job_status := Processing\<rparr>)) \<and>
         (hasCanvas caps \<and> \<not> hasFfmpeg caps \<and> staticImage out = Inl err \<and> manifest out = Inr outFile \<longrightarrow>
            processVideo caps out j = jobCompleted outFile (j\<lparr>job_status := Processing\<rparr>)) \<and>
         (\<not> hasCanvas caps \<and> manifest out = Inr outFile \<longrightarrow>
            processVideo caps out j = jobCompleted outFile (j\<lparr>job_status := Processing\<rparr>)) \<and>
         ((\<not> hasCanvas caps \<or> (\<not> hasFfmpeg caps \<and> staticImage out = Inl err)) \<and>
          manifest out = Inl err' \<longrightarrow>
            processVideo caps out j = jobFailed err' (j\<lparr>job_status := Processing\<rparr>)) \<and>
         (webm = Inr b \<and> 1000 < blob_size b \<longrightarrow> createVideoFromFrames webm alt n = Inr b) \<and>
         ((webm = Inl err \<or> (webm = Inr b \<and> blob_size b \<le> 1000)) \<and> alt = Inr b' \<longrightarrow>
            createVideoFromFrames webm alt n = Inr b') \<and>
         ((webm = Inl err \<or> (webm = Inr b \<and> blob_size b \<le> 1000)) \<and> alt = Inl err' \<longrightarrow>
            createVideoFromFrames webm alt n = Inr (createFramesZip n))"
proof -
  note st = processVideoStart_valid [OF valid]
  have server: "processVideo caps out j =
      (case (if hasCanvas caps \<and> hasFfmpeg caps then generateRealVideo out (j\<lparr>job_status := Processing\<rparr>)
             else generateEnhancedFallback caps out (j\<lparr>job_status := Processing\<rparr>)) of
         Inl e \<Rightarrow> jobFailed e (j\<lparr>job_status := Processing\<rparr>)
       | Inr done \<Rightarrow> done)"
    by (simp add: processVideo_def st Let_def)
  show ?thesis
    by (auto simp: server generateRealVideo_def generateEnhancedFallback_def
          generateStaticRouteImage_def generateEnhancedManifest_def
          createVideoFromFrames_def Let_def)
qed

lemma validJob_simps [simp]:
  "job_routes validJob \<noteq> []" "job_mapImage validJob \<noteq> None"
  by (simp_all add: validJob_def)

theorem encoding_tiers_witness:
  "job_routes validJob \<noteq> [] \<and> job_mapImage validJob \<noteq> None \<and>
   processVideo \<lparr>hasCanvas = True, hasFfmpeg = True\<rparr>
      \<lparr>realVideo = Inl ''ffmpeg exited with code 1'', staticImage = Inr ''route_image.png'',
       manifest = Inr ''route_data.json''\<rparr> validJob
     = jobFailed ''ffmpeg exited with code 1'' (validJob\<lparr>job_status := Processing\<rparr>) \<and>
   processVideo \<lparr>hasCanvas = True, hasFfmpeg = False\<rparr>
      \<lparr>realVideo = Inl ''ffmpeg exited with code 1'', staticImage = Inl ''canvas failed'',
       manifest = Inr ''route_data.json''\<rparr> validJob
     = jobCompleted ''route_data.json'' (validJob\<lparr>job_status := Processing\<rparr>) \<and>
   createVideoFromFrames (Inl ''MediaRecorder error'')
      (Inr \<lparr>blob_size = 5000, blob_type = ''video/webm''\<rparr>) 10
     = Inr \<lparr>blob_size = 5000, blob_type = ''video/webm''\<rparr> \<and>
   createVideoFromFrames (Inl ''MediaRecorder error'') (Inl ''MediaRecorder error'') 10
     = Inr (createFramesZip 10)"
  using
    encoding_tiers [where j = validJob and caps = "\<lparr>hasCanvas = True, hasFfmpeg = True\<rparr>"
      and out = "\<lparr>realVideo = Inl ''ffmpeg exited with code 1'', staticImage = Inr ''route_image.png'',
                  manifest = Inr ''route_data.json''\<rparr>"
      and err = "''ffmpeg exited with code 1''" and outFile = "''route_data.json''" and err' = "''e''"
      and webm = "Inl ''MediaRecorder error''" and alt = "Inl ''MediaRecorder error''"
      and n = 10 and b = "\<lparr>blob_size = 0, blob_type = []\<rparr>" and b' = "\<lparr>blob_size = 0, blob_type = []\<rparr>"]
    encoding_tiers [where j = validJob and caps = "\<lparr>hasCanvas = True, hasFfmpeg = False\<rparr>"
      and out = "\<lparr>realVideo = Inl ''ffmpeg exited with code 1'', staticImage = Inl ''canvas failed'',
                  manifest = Inr ''route_data.json''\<rparr>"
      and err = "''canvas failed''" and outFile = "''route_data.json''" and err' = "''e''"
      and webm = "Inl ''MediaRecorder error''" and alt = "Inl ''MediaRecorder error''"
      and n = 10 and b = "\<lparr>blob_size = 0, blob_type = []\<rparr>" and b' = "\<lparr>blob_size = 0, blob_type = []\<rparr>"]
    encoding_tiers [where j = validJob and caps = "\<lparr>hasCanvas = True, hasFfmpeg = False\<rparr>"
      and out = "\<lparr>realVideo = Inl ''ffmpeg exited with code 1'', staticImage = Inl ''canvas failed'',
                  manifest = Inr ''route_data.json''\<rparr>"
      and err = "''MediaRecorder error''" and outFile = "''route_data.json''"
      and err' = "''MediaRecorder error''"
      and webm = "Inl ''MediaRecorder error''"
      and alt = "Inr \<lparr>blob_size = 5000, blob_type = ''video/webm''\<rparr>"
      and n = 10 and b = "\<lparr>blob_size = 0, blob_type = []\<rparr>"
      and b' = "\<lparr>blob_size = 5000, blob_type = ''video/webm''\<rparr>"]
    encoding_tiers [where j = validJob and caps = "\<lparr>hasCanvas = True, hasFfmpeg = False\<rparr>"
      and out = "\<lparr>realVideo = Inl ''ffmpeg exited with code 1'', staticImage = Inl ''canvas failed'',
                  manifest = Inr ''route_data.json''\<rparr>"
      and err = "''MediaRecorder error''" and outFile = "''route_data.json''"
      and err' = "''MediaRecorder error''"
      and webm = "Inl ''MediaRecorder error''" and alt = "Inl ''MediaRecorder error''"
      and n = 10 and b = "\<lparr>blob_size = 0, blob_type = []\<rparr>" and b' = "\<lparr>blob_size = 0, blob_type = []\<rparr>"]
  by simp

text \<open>
  The claim as the spec states it fails: when the WebM recording throws, the same export
  goes on to the alternative recording and succeeds; and on a server with a canvas and
  no encoder, a static image that fails is followed by the manifest and the job
  completes.
\<close>

theorem encoding_tiers_counterexample:
  "createVideoFromFrames (Inl ''MediaRecorder error'')
      (Inr \<lparr>blob_size = 5000, blob_type = ''video/webm''\<rparr>) 10
     = Inr \<lparr>blob_size = 5000, blob_type = ''video/webm''\<rparr> \<and>
   job_status (processVideo \<lparr>hasCanvas = True, hasFfmpeg = False\<rparr>
      \<lparr>realVideo = Inl ''ffmpeg exited with code 1'', staticImage = Inl ''canvas failed'',
       manifest = Inr ''route_data.json''\<rparr> validJob) = Completed \<and>
   outputFile (processVideo \<lparr>hasCanvas = True, hasFfmpeg = False\<rparr>
      \<lparr>realVideo = Inl ''ffmpeg exited with code 1'', staticImage = Inl ''canvas failed'',
       manifest = Inr ''route_data.json''\<rparr> validJob) = Some ''route_data.json''"
  by (simp add: createVideoFromFrames_def processVideo_def processVideoStart_def validJob_def
        generateEnhancedFallback_def generateStaticRouteImage_def generateEnhancedManifest_def
        jobCompleted_def Let_def)

section \<open>Verification: submitting an export\<close>

text \<open>
  Claim C4, as the code has it. The client export fails at once, before any frame is
  captured, when the map image is missing or when no visible route with two waypoints is
  found (an empty route list included); it returns the error message and the timeline is
  untouched. The server route answers 400 without creating a job when the routes are
  missing or no array, or when the map image is missing. An empty route array with a map
  image passes the route's checks: a job is created and its id returned with status 200,
  and the job is in status \<open>error\<close> ("No routes provided for video generation") when
  the call returns.
\<close>

theorem submit_validation:
  "(mapImageData env \<noteq> Some True \<longrightarrow>
      exportVideo env g =
        (Inl ''No map image available for export. Please upload a map first.'',
         g\<lparr>exportStatus := ''error'', exportProgress := 0\<rparr>)) \<and>
   (mapImageData env = Some True \<and> exportableRoutes env = [] \<longrightarrow>
      exportVideo env g =
        (Inl ''No visible routes with waypoints found for export.'',
         g\<lparr>exportStatus := ''error'', exportProgress := 0\<rparr>)) \<and>
   (canvasRoutes env = [] \<and> (managerRoutes env = None \<or> managerRoutes env = Some []) \<longrightarrow>
      exportableRoutes env = []) \<and>
   (req_routes req = None \<longrightarrow>
      postVideo newId req jobs =
        (\<lparr>httpStatus = 400, success = False, message = ''Invalid routes data'', jobId = None\<rparr>,
         jobs)) \<and>
   (req_routes req = Some rs \<and> req_mapImage req = None \<longrightarrow>
      postVideo newId req jobs =
        (\<lparr>httpStatus = 400, success = False, message = ''Map image is required'', jobId = None\<rparr>,
         jobs)) \<and>
   (req_routes req = Some [] \<and> req_mapImage req = Some img \<longrightarrow>
      fst (postVideo newId req jobs) =
        \<lparr>httpStatus = 200, success = True, message = ''Video generation started'',
         jobId = Some newId\<rparr> \<and>
      snd (postVideo newId req jobs) newId =
        Some \<lparr>job_id = newId, job_status = Error,
              job_error = Some ''No routes provided for video generation'',
              outputFile = None, job_routes = [], job_mapImage = Some img\<rparr>)"
proof (intro conjI impI)
  assume "canvasRoutes env = [] \<and> (managerRoutes env = None \<or> managerRoutes env = Some [])"
  then show "exportableRoutes env = []"
    by (auto simp: exportableRoutes_def Let_def)
next
  assume "req_routes req = Some [] \<and> req_mapImage req = Some img"
  then show "fst (postVideo newId req jobs) =
        \<lparr>httpStatus = 200, success = True, message = ''Video generation started'',
         jobId = Some newId\<rparr>"
    and "snd (postVideo newId req jobs) newId =
        Some \<lparr>job_id = newId, job_status = Error,
              job_error = Some ''No routes provided for video generation'',
              outputFile = None, job_routes = [], job_mapImage = Some img\<rparr>"
    by (simp_all add: postVideo_def createVideoJob_def processVideoStart_def jobFailed_def Let_def)
qed (simp_all add: exportVideo_def exportFailed_def postVideo_def Let_def)

lemma emptyExportEnv_simps [simp]:
  "mapImageData emptyExportEnv = Some True" "canvasRoutes emptyExportEnv = []"
  "managerRoutes emptyExportEnv = Some []"
  by (simp_all add: emptyExportEnv_def)

theorem submit_validation_witness:
  "mapImageData (emptyExportEnv\<lparr>mapImageData := None\<rparr>) \<noteq> Some True \<and>
   exportVideo (emptyExportEnv\<lparr>mapImageData := None\<rparr>) initialGenerator =
     (Inl ''No map image available for export. Please upload a map first.'',
      initialGenerator\<lparr>exportStatus := ''error'', exportProgress := 0\<rparr>) \<and>
   mapImageData emptyExportEnv = Some True \<and> exportableRoutes emptyExportEnv = [] \<and>
   exportVideo emptyExportEnv initialGenerator =
     (Inl ''No visible routes with waypoints found for export.'',
      initialGenerator\<lparr>exportStatus := ''error'', exportProgress := 0\<rparr>) \<and>
   postVideo ''job-1'' (emptyRequest\<lparr>req_routes := None\<rparr>) Map.empty =
     (\<lparr>httpStatus = 400, success = False, message = ''Invalid routes data'', jobId = None\<rparr>,
      Map.empty) \<and>
   postVideo ''job-1'' (emptyRequest\<lparr>req_mapImage := None\<rparr>) Map.empty =
     (\<lparr>httpStatus = 400, success = False, message = ''Map image is required'', jobId = None\<rparr>,
      Map.empty) \<and>
   fst (postVideo ''job-1'' emptyRequest Map.empty) =
     \<lparr>httpStatus = 200, success = True, message = ''Video generation started'',
      jobId = Some ''job-1''\<rparr>"
  using
    submit_validation [of "emptyExportEnv\<lparr>mapImageData := None\<rparr>" initialGenerator
       "emptyRequest\<lparr>req_routes := None\<rparr>" "''job-1''" Map.empty "[]" "''m''"]
    submit_validation [of emptyExportEnv initialGenerator
       "emptyRequest\<lparr>req_mapImage := None\<rparr>" "''job-1''" Map.empty "[]" "''m''"]
    submit_validation [of emptyExportEnv initialGenerator
       emptyRequest "''job-1''" Map.empty "[]" "''data:image/png;base64,AAAA''"]
  by (simp add: emptyRequest_def)

text \<open>
  The claim as the spec states it fails on the server: a request with an empty route
  array and a map image is answered with status 200 and a job id, and the job is in the
  store.
\<close>

theorem submit_validation_counterexample:
  "fst (postVideo ''job-1'' emptyRequest Map.empty) =
     \<lparr>httpStatus = 200, success = True, message = ''Video generation started'',
      jobId = Some ''job-1''\<rparr> \<and>
   snd (postVideo ''job-1'' emptyRequest Map.empty) ''job-1'' =
     Some \<lparr>job_id = ''job-1'', job_status = Error,
           job_error = Some ''No routes provided for video generation'',
           outputFile = None, job_routes = [],
           job_mapImage = Some ''data:image/png;base64,AAAA''\<rparr>"
  by (simp add: postVideo_def createVideoJob_def processVideoStart_def jobFailed_def Let_def
        emptyRequest_def)

end
